theory Spec2Isabelle
  imports Main "HOL-Library.Sublist"
begin

section \<open>JavaScript values and the shared capture state store\<close>

text \<open>
  The store is \<^verbatim>\<open>chrome.storage.local\<close>: a key/value store of JSON values. A stored
  object is a finite map from property names to JSON values; \<^verbatim>\<open>undefined\<close> is not a
  JSON value, so a stored object has no property whose value is \<^verbatim>\<open>undefined\<close>.
\<close>

datatype jsval = JNull | JBool bool | JNum int | JStr string

type_synonym obj = "string \<rightharpoonup> jsval"

text \<open>
  An object literal in memory may carry a property whose value is \<^verbatim>\<open>undefined\<close>
  (\<open>Some None\<close>); \<^verbatim>\<open>chrome.storage.local.set\<close> serialises to JSON and drops it.
\<close>

type_synonym literal = "string \<rightharpoonup> jsval option"

text \<open>
  The rectangle the area selector writes, in document coordinates. The entry
  \<^verbatim>\<open>areaSelection\<close> is absent (\<open>None\<close>), \<^verbatim>\<open>null\<close> (\<open>Some None\<close>) or a rectangle.
\<close>

record rect =
  rect_x :: int
  rect_y :: int
  rect_width :: int
  rect_height :: int

record store =
  captureRequest :: "obj option"
  currentCapture :: "obj option"
  areaSelection :: "rect option option"
  activeCaptureTabId :: "jsval option"

definition emptyStore :: store where
  "emptyStore = \<lparr>captureRequest = None, currentCapture = None,
                  areaSelection = None, activeCaptureTabId = None\<rparr>"

text \<open>JavaScript truthiness of a property read (\<open>None\<close> is \<^verbatim>\<open>undefined\<close>).\<close>

fun falsy :: "jsval option \<Rightarrow> bool" where
  "falsy None = True"
| "falsy (Some JNull) = True"
| "falsy (Some (JBool b)) = (\<not> b)"
| "falsy (Some (JNum n)) = (n = 0)"
| "falsy (Some (JStr s)) = (s = [])"

subsection \<open>capture-queue.js\<close>

fun decimal :: "nat \<Rightarrow> string" where
  "decimal n = (if n < 10 then [char_of (48 + n)]
                else decimal (n div 10) @ [char_of (48 + n mod 10)])"

declare decimal.simps [simp del]

text \<open>
  \<^verbatim>\<open>enqueue(request)\<close>. \<open>now\<close> is the value of \<^verbatim>\<open>Date.now()\<close> and \<open>rnd\<close> the
  nine characters taken from \<^verbatim>\<open>Math.random().toString(36)\<close>.
\<close>

definition enqueue :: "nat \<Rightarrow> string \<Rightarrow> obj \<Rightarrow> store \<Rightarrow> string \<times> store" where
  "enqueue now rnd request s =
     (let ident = ''capture_'' @ decimal now @ ''_'' @ rnd;
          enrichedRequest = request ++ [''id'' \<mapsto> JStr ident,
                                        ''timestamp'' \<mapsto> JNum (int now),
                                        ''status'' \<mapsto> JStr ''pending'']
      in (ident, s\<lparr>captureRequest := Some enrichedRequest\<rparr>))"

text \<open>\<^verbatim>\<open>dequeue()\<close>: \<open>None\<close> is the \<^verbatim>\<open>null\<close> it returns.\<close>

definition dequeue :: "store \<Rightarrow> obj option \<times> store" where
  "dequeue s =
     (case captureRequest s of
        None \<Rightarrow> (None, s)
      | Some request \<Rightarrow>
          if request ''status'' = Some (JStr ''pending'')
          then (let request' = request(''status'' \<mapsto> JStr ''processing'')
                in (Some request', s\<lparr>captureRequest := Some request'\<rparr>))
          else (None, s))"

definition clear :: "store \<Rightarrow> store" where
  "clear s = s\<lparr>captureRequest := None\<rparr>"

text \<open>
  \<^verbatim>\<open>updateState(state)\<close>: the spread \<^verbatim>\<open>{...current, ...state, updatedAt: Date.now()}\<close>,
  then the write, which drops the properties that are \<^verbatim>\<open>undefined\<close>.
\<close>

definition spread :: "obj \<Rightarrow> literal \<Rightarrow> obj" where
  "spread current state = (\<lambda>k. case state k of None \<Rightarrow> current k | Some v \<Rightarrow> v)"

definition updateState :: "nat \<Rightarrow> literal \<Rightarrow> store \<Rightarrow> store" where
  "updateState now state s =
     (let current = (case currentCapture s of None \<Rightarrow> Map.empty | Some c \<Rightarrow> c);
          newState = (spread current state)(''updatedAt'' \<mapsto> JNum (int now))
      in s\<lparr>currentCapture := Some newState\<rparr>)"

definition getState :: "store \<Rightarrow> obj option" where
  "getState s = currentCapture s"

definition reset :: "store \<Rightarrow> store" where
  "reset s = s\<lparr>captureRequest := None, currentCapture := None\<rparr>"

definition cancel :: "nat \<Rightarrow> store \<Rightarrow> store" where
  "cancel now s = updateState now [''status'' \<mapsto> Some (JStr ''cancelled'')] s"

text \<open>
  \<^verbatim>\<open>handleCancelCapture()\<close> of background.js: \<^verbatim>\<open>cancel()\<close>, then \<^verbatim>\<open>reset()\<close>.
\<close>

definition handleCancelCapture :: "nat \<Rightarrow> store \<Rightarrow> store" where
  "handleCancelCapture now s = reset (cancel now s)"

text \<open>What \<open>updateState\<close> reads as the current state: \<^verbatim>\<open>data[STATE] || {}\<close>.\<close>

definition currentOrEmpty :: "store \<Rightarrow> obj" where
  "currentOrEmpty s = (case currentCapture s of None \<Rightarrow> Map.empty | Some c \<Rightarrow> c)"

section \<open>The AI gateway (ai-service.js)\<close>

text \<open>
  The settings blob as \<^verbatim>\<open>getSettings()\<close> returns it. A provider that is not set is
  \<open>None\<close>; a credential that is not set is the empty string (\<^verbatim>\<open>data.openaiApiKey || ''\<close>),
  which is what \<^verbatim>\<open>!settings.openaiApiKey\<close> tests.
\<close>

record settings =
  visionApiProvider :: "string option"
  textApiProvider :: "string option"
  visionModel :: string
  textModel :: string
  ollamaApiKey :: string
  googleApiKey :: string
  openaiApiKey :: string
  anthropicApiKey :: string
  geminiApiKey :: string

text \<open>A template literal prints a provider that is not set as \<^verbatim>\<open>undefined\<close>.\<close>

definition shown :: "string option \<Rightarrow> string" where
  "shown p = (case p of None \<Rightarrow> ''undefined'' | Some s \<Rightarrow> s)"

text \<open>\<^verbatim>\<open>validateRequiredKey(provider, settings)\<close>: \<open>Inl\<close> is the message of the error thrown.\<close>

definition validateRequiredKey :: "string option \<Rightarrow> settings \<Rightarrow> string + unit" where
  "validateRequiredKey provider settings =
     (if provider = Some ''openai'' \<and> openaiApiKey settings = []
        then Inl ''OpenAI API Key is required''
      else if provider = Some ''anthropic'' \<and> anthropicApiKey settings = []
        then Inl ''Anthropic API Key is required''
      else if provider = Some ''google-gemini'' \<and> geminiApiKey settings = []
        then Inl ''Gemini API Key is required''
      else if provider = Some ''ollama-cloud'' \<and> ollamaApiKey settings = []
        then Inl ''Ollama Cloud API Key is required''
      else if provider = Some ''google-vision'' \<and> googleApiKey settings = []
        then Inl ''Google Cloud Vision API Key is required''
      else Inr ())"

text \<open>
  The provider implementations. Each builds a request for its endpoint and awaits
  \<^verbatim>\<open>fetch\<close>; what it returns or throws is the answer of the network, given here by a
  \<open>backend\<close> from the implementation and its input to that answer. Calling an
  implementation is what attempts the network call, so an operation returns, next to
  its result, the implementations it called.
\<close>

datatype impl =
    DescribeImageOllama | DescribeImageGoogleVision | DescribeImageOpenAI
  | DescribeImageAnthropic | DescribeImageGemini
  | AnalyzeTextOllama | AnalyzeTextOpenAI | AnalyzeTextAnthropic | AnalyzeTextGemini
  | AskFollowUpOllama | AskFollowUpOpenAI | AskFollowUpAnthropic | AskFollowUpGemini

type_synonym backend = "impl \<Rightarrow> string \<Rightarrow> string + string"

definition call :: "backend \<Rightarrow> impl \<Rightarrow> string \<Rightarrow> (string + string) \<times> impl list" where
  "call backend i input = (backend i input, [i])"

definition describeImage :: "backend \<Rightarrow> settings \<Rightarrow> string \<Rightarrow> (string + string) \<times> impl list" where
  "describeImage backend settings base64Image =
     (case validateRequiredKey (visionApiProvider settings) settings of
        Inl e \<Rightarrow> (Inl e, [])
      | Inr _ \<Rightarrow>
          if visionApiProvider settings = Some ''ollama''
             \<or> visionApiProvider settings = Some ''ollama-cloud''
            then call backend DescribeImageOllama base64Image
          else if visionApiProvider settings = Some ''google-vision''
            then call backend DescribeImageGoogleVision base64Image
          else if visionApiProvider settings = Some ''openai''
            then call backend DescribeImageOpenAI base64Image
          else if visionApiProvider settings = Some ''anthropic''
            then call backend DescribeImageAnthropic base64Image
          else if visionApiProvider settings = Some ''google-gemini''
            then call backend DescribeImageGemini base64Image
          else (Inl (''Unknown vision provider: '' @ shown (visionApiProvider settings)), []))"

definition analyzeText :: "backend \<Rightarrow> settings \<Rightarrow> string \<Rightarrow> (string + string) \<times> impl list" where
  "analyzeText backend settings text =
     (case validateRequiredKey (textApiProvider settings) settings of
        Inl e \<Rightarrow> (Inl e, [])
      | Inr _ \<Rightarrow>
          if textApiProvider settings = Some ''ollama''
             \<or> textApiProvider settings = Some ''ollama-cloud''
            then call backend AnalyzeTextOllama text
          else if textApiProvider settings = Some ''openai''
            then call backend AnalyzeTextOpenAI text
          else if textApiProvider settings = Some ''anthropic''
            then call backend AnalyzeTextAnthropic text
          else if textApiProvider settings = Some ''google-gemini''
            then call backend AnalyzeTextGemini text
          else (Inl (''Unknown text provider: '' @ shown (textApiProvider settings)), []))"

text \<open>
  \<^verbatim>\<open>askFollowUp(question, conversationHistory, settings)\<close>; the history only shapes
  the request that the implementation sends.
\<close>

definition askFollowUp :: "backend \<Rightarrow> settings \<Rightarrow> string \<Rightarrow> (string + string) \<times> impl list" where
  "askFollowUp backend settings question =
     (case validateRequiredKey (textApiProvider settings) settings of
        Inl e \<Rightarrow> (Inl e, [])
      | Inr _ \<Rightarrow>
          if textApiProvider settings = Some ''ollama''
             \<or> textApiProvider settings = Some ''ollama-cloud''
            then call backend AskFollowUpOllama question
          else if textApiProvider settings = Some ''openai''
            then call backend AskFollowUpOpenAI question
          else if textApiProvider settings = Some ''anthropic''
            then call backend AskFollowUpAnthropic question
          else if textApiProvider settings = Some ''google-gemini''
            then call backend AskFollowUpGemini question
          else (Inl (''Unknown text provider: '' @ shown (textApiProvider settings)), []))"

subsection \<open>Listing models, with the in-memory cache\<close>

record model =
  model_id :: string
  model_name :: string

text \<open>
  One entry of a provider's model listing: its \<^verbatim>\<open>id\<close> (\<^verbatim>\<open>name\<close> for Ollama and
  Gemini) and its display name when the listing has one.
\<close>

record entry =
  entry_id :: string
  entry_display :: "string option"

text \<open>
  What \<^verbatim>\<open>fetch(url)\<close> gives: a rejection with its message, or a response with its
  \<^verbatim>\<open>ok\<close> flag and the entries of its JSON body.
\<close>

datatype response = Rejected string | Response bool "entry list"

type_synonym network = "string \<Rightarrow> response"

record cache =
  cache_models :: "string \<rightharpoonup> model list"
  cache_expiry :: "string \<rightharpoonup> nat"

definition emptyCache :: cache where
  "emptyCache = \<lparr>cache_models = Map.empty, cache_expiry = Map.empty\<rparr>"

definition ENDPOINT_local :: string where "ENDPOINT_local = ''http://localhost:11434''"
definition ENDPOINT_openai :: string where "ENDPOINT_openai = ''https://api.openai.com/v1''"
definition ENDPOINT_anthropic :: string where "ENDPOINT_anthropic = ''https://api.anthropic.com/v1''"
definition ENDPOINT_googleGemini :: string where
  "ENDPOINT_googleGemini = ''https://generativelanguage.googleapis.com/v1beta''"

text \<open>\<^verbatim>\<open>getLocalModels()\<close>: any failure is logged and gives the empty list.\<close>

definition getLocalModels :: "network \<Rightarrow> entry list \<times> string list" where
  "getLocalModels net =
     (let url = ENDPOINT_local @ ''/api/tags''
      in (case net url of
            Rejected _ \<Rightarrow> []
          | Response ok entries \<Rightarrow> if ok then entries else [], [url]))"

text \<open>\<^verbatim>\<open>s.replace(pat, '')\<close> with a string pattern: the first occurrence only.\<close>

fun removeFirst :: "string \<Rightarrow> string \<Rightarrow> string" where
  "removeFirst pat [] = []"
| "removeFirst pat (c # cs) =
     (if prefix pat (c # cs) then drop (length pat) (c # cs) else c # removeFirst pat cs)"

definition displayOr :: "entry \<Rightarrow> string \<Rightarrow> string" where
  "displayOr e d = (case entry_display e of None \<Rightarrow> d | Some n \<Rightarrow> if n = [] then d else n)"

text \<open>The body of the \<^verbatim>\<open>try\<close> block of \<^verbatim>\<open>getModels\<close>, up to the list of models.\<close>

definition listing :: "network \<Rightarrow> string \<Rightarrow> string \<Rightarrow> (string + model list) \<times> string list" where
  "listing net provider apiKey =
     (if provider = ''ollama'' \<or> provider = ''ollama-cloud'' then
        (case getLocalModels net of (localModels, urls) \<Rightarrow>
           (Inr (map (\<lambda>m. \<lparr>model_id = entry_id m, model_name = entry_id m\<rparr>) localModels), urls))
      else if provider = ''openai'' then
        (let url = ENDPOINT_openai @ ''/models''
         in (case net url of
               Rejected msg \<Rightarrow> Inl msg
             | Response ok entries \<Rightarrow>
                 if \<not> ok then Inl ''Failed to fetch OpenAI models''
                 else Inr (map (\<lambda>m. \<lparr>model_id = entry_id m, model_name = entry_id m\<rparr>)
                             (filter (\<lambda>m. sublist ''gpt'' (entry_id m)) entries)), [url]))
      else if provider = ''anthropic'' then
        (let url = ENDPOINT_anthropic @ ''/models''
         in (case net url of
               Rejected msg \<Rightarrow> Inl msg
             | Response ok entries \<Rightarrow>
                 if \<not> ok then Inl ''Failed to fetch Anthropic models''
                 else Inr (map (\<lambda>m. \<lparr>model_id = entry_id m,
                                         model_name = displayOr m (entry_id m)\<rparr>)
                             (filter (\<lambda>m. sublist ''claude'' (entry_id m)) entries)), [url]))
      else if provider = ''google-gemini'' then
        (let url = ENDPOINT_googleGemini @ ''/models?key='' @ apiKey
         in (case net url of
               Rejected msg \<Rightarrow> Inl msg
             | Response ok entries \<Rightarrow>
                 if \<not> ok then Inl ''Failed to fetch Gemini models''
                 else Inr (map (\<lambda>m. let ident = removeFirst ''models/'' (entry_id m)
                                       in \<lparr>model_id = ident, model_name = displayOr m ident\<rparr>)
                             (filter (\<lambda>m. sublist ''gemini'' (entry_id m)) entries)), [url]))
      else (Inr [], []))"

text \<open>
  \<^verbatim>\<open>getModels(provider, apiKey)\<close> at time \<open>now\<close>; an \<open>apiKey\<close> that is not given is
  the empty string. It returns the models or the message of the error thrown, the
  URLs it fetched, and the cache.
\<close>

definition getModels ::
  "network \<Rightarrow> nat \<Rightarrow> string \<Rightarrow> string \<Rightarrow> cache
     \<Rightarrow> ((string + model list) \<times> string list) \<times> cache" where
  "getModels net now provider apiKey c =
     (let cacheKey = provider @ ''-'' @ (if apiKey = [] then ''no-key'' else apiKey);
          fresh = (case cache_expiry c cacheKey of None \<Rightarrow> False | Some e \<Rightarrow> e > now)
      in if cache_models c cacheKey \<noteq> None \<and> fresh
         then ((Inr (case cache_models c cacheKey of Some cached \<Rightarrow> cached | None \<Rightarrow> []), []), c)
         else if (provider = ''openai'' \<or> provider = ''anthropic''
                  \<or> provider = ''google-gemini'' \<or> provider = ''ollama-cloud'')
                 \<and> apiKey = []
         then ((Inl ''API Key is required for this provider'', []), c)
         else (case listing net provider apiKey of
                 (Inl e, urls) \<Rightarrow> ((Inl e, urls), c)
               | (Inr models, urls) \<Rightarrow>
                   ((Inr models, urls),
                    c\<lparr>cache_models := (cache_models c)(cacheKey \<mapsto> models),
                      cache_expiry := (cache_expiry c)(cacheKey \<mapsto> now + 3600000)\<rparr>)))"

section \<open>The background worker (background.js)\<close>

subsection \<open>Pure helpers\<close>

definition isDigit :: "char \<Rightarrow> bool" where
  "isDigit c = (c \<in> set ''0123456789'')"

text \<open>The class \<^verbatim>\<open>\w\<close>, whose edges are the word boundaries \<^verbatim>\<open>\b\<close>.\<close>

definition isWordChar :: "char \<Rightarrow> bool" where
  "isWordChar c =
     (c \<in> set ''abcdefghijklmnopqrstuvwxyzABCDEFGHIJKLMNOPQRSTUVWXYZ0123456789_'')"

text \<open>A shape is matched at the head of a string: \<^verbatim>\<open>d\<close> stands for a digit.\<close>

fun matchShape :: "string \<Rightarrow> string \<Rightarrow> bool" where
  "matchShape [] s = True"
| "matchShape (p # ps) [] = False"
| "matchShape (p # ps) (c # cs) =
     ((if p = CHR ''d'' then isDigit c else c = p) \<and> matchShape ps cs)"

text \<open>
  \<^verbatim>\<open>\d{3}-\d{2}-\d{4}\b\<close> at the head of a string: the boundary after the last digit
  is the end of the string or a character outside \<^verbatim>\<open>\w\<close>.
\<close>

definition ssnAt :: "string \<Rightarrow> bool" where
  "ssnAt s = (matchShape ''ddd-dd-dddd'' s
              \<and> (case drop 11 s of [] \<Rightarrow> True | x # _ \<Rightarrow> \<not> isWordChar x))"

text \<open>
  The global replace of \<^verbatim>\<open>/\b\d{3}-\d{2}-\d{4}\b/g\<close>, left to right; \<open>prevWord\<close> says
  whether the character before the head is in \<^verbatim>\<open>\w\<close>, which decides the boundary in
  front of the first digit.
\<close>

fun redact :: "bool \<Rightarrow> string \<Rightarrow> string" where
  "redact prevWord [] = []"
| "redact prevWord (c # cs) =
     (if \<not> prevWord \<and> ssnAt (c # cs) then ''[REDACTED_SSN]'' @ redact True (drop 10 cs)
      else c # redact (isWordChar c) cs)"

definition sanitizeSensitiveData :: "string \<Rightarrow> string" where
  "sanitizeSensitiveData data = redact False data"

definition restrictedPatterns :: "string list" where
  "restrictedPatterns =
     [''chrome://'', ''chrome-extension://'', ''edge://'', ''opera://'', ''about:'',
      ''moz-extension://'', ''chrome-error://'', ''https://chromewebstore.google.com/'',
      ''https://chrome.google.com/webstore'']"

text \<open>
  \<^verbatim>\<open>isRestrictedUrl(url)\<close>. A value that is truthy and not a string has no
  \<^verbatim>\<open>startsWith\<close>: the call throws a TypeError.
\<close>

definition isRestrictedUrl :: "jsval option \<Rightarrow> string + bool" where
  "isRestrictedUrl url =
     (if falsy url then Inr True
      else case url of
             Some (JStr u) \<Rightarrow> Inr (list_ex (\<lambda>pattern. prefix pattern u) restrictedPatterns)
           | _ \<Rightarrow> Inl ''url.startsWith is not a function'')"

text \<open>
  \<^verbatim>\<open>parseMarkdown(text)\<close> returns the empty string for an empty text and otherwise
  runs its sequence of some forty regular-expression replacements (escaping of HTML,
  code, headers, emphasis, tables, lists, line breaks, a wrapping \<^verbatim>\<open>div\<close>), which is
  the argument \<open>passes\<close> here: the rendering of Markdown is a presentation component
  outside the capture core, and the properties below hold for every rendering.
\<close>

definition parseMarkdown :: "(string \<Rightarrow> string) \<Rightarrow> string \<Rightarrow> string" where
  "parseMarkdown passes text = (if text = [] then [] else passes text)"

definition formatResult :: "(string \<Rightarrow> string) \<Rightarrow> string \<Rightarrow> string \<Rightarrow> string" where
  "formatResult passes description analysis =
     parseMarkdown passes description @ parseMarkdown passes analysis"

text \<open>\<^verbatim>\<open>dataUrl.split(',')[1]\<close>: \<open>None\<close> when the string has no comma.\<close>

definition secondField :: "string \<Rightarrow> string option" where
  "secondField s =
     (case dropWhile (\<lambda>c. c \<noteq> CHR '','') s of
        [] \<Rightarrow> None
      | _ # rest \<Rightarrow> Some (takeWhile (\<lambda>c. c \<noteq> CHR '','') rest))"

subsection \<open>The worker's state and what it does to the outside\<close>

datatype event =
    StateWrite literal
  | RequestCleared
  | TabsQuery
  | TabsGet
  | CaptureVisibleTab
  | CaptureFullPage
  | InsertCSS string
  | ExecuteScript string
  | TabMessage string
  | GatewayCall string
  | NetworkCall impl
  | ScrollTo int
  | Delay nat

text \<open>
  The worker: the shared store, the module-level flag \<^verbatim>\<open>pollingActive\<close>, the clock
  read by \<^verbatim>\<open>Date.now()\<close> (each write to the capture state takes one tick), and the
  log of the calls made so far.
\<close>

record world =
  wstore :: store
  pollingActive :: bool
  clock :: nat
  trace :: "event list"

definition emit :: "event list \<Rightarrow> world \<Rightarrow> world" where
  "emit evs w = w\<lparr>trace := trace w @ evs\<rparr>"

text \<open>\<^verbatim>\<open>await CaptureQueue.updateState(state)\<close>, made by the worker.\<close>

definition writeState :: "literal \<Rightarrow> world \<Rightarrow> world" where
  "writeState state w =
     w\<lparr>wstore := updateState (clock w) state (wstore w),
       clock := Suc (clock w),
       trace := trace w @ [StateWrite state]\<rparr>"

text \<open>The result of \<^verbatim>\<open>executeScript\<close> that initialises the selector.\<close>

record initResult =
  init_success :: bool
  init_ready :: bool
  init_error :: "string option"

text \<open>
  What the browser, the page and the other contexts answer during one run of a handler.
  A rejected promise is \<open>Inl\<close> (or \<open>Some\<close>) with the message of its error.
  \<open>e_tabsQuery\<close> is the \<^verbatim>\<open>id\<close> of the active tab, \<open>e_tabsGet\<close> the \<^verbatim>\<open>url\<close> of the
  tab asked for. \<open>e_others1\<close> and \<open>e_others2\<close> are the writes of other contexts (the
  popup, a content script) that reach the store while the worker awaits, before it
  reads the state at its first and at its second checkpoint.
\<close>

record env =
  e_tabsQuery :: "string + jsval option"
  e_tabsGet :: "string + jsval option"
  e_captureVisibleTab :: "string + string"
  e_captureFullPage :: "string + string"
  e_insertCSS :: "string option"
  e_executeScript :: "string option"
  e_initResult :: "string + initResult option"
  e_settings :: settings
  e_backend :: backend
  e_passes :: "string \<Rightarrow> string"
  e_others1 :: "store \<Rightarrow> store"
  e_others2 :: "store \<Rightarrow> store"

definition isCancelled :: "obj option \<Rightarrow> bool" where
  "isCancelled state =
     (case state of None \<Rightarrow> False | Some st \<Rightarrow> st ''status'' = Some (JStr ''cancelled''))"

definition notSet :: "string option \<Rightarrow> bool" where
  "notSet p = (p = None \<or> p = Some [])"

subsection \<open>Analysis\<close>

text \<open>\<^verbatim>\<open>analyzeScreenshot(base64Image, settings, tabId)\<close>.\<close>

definition analyzeScreenshot :: "env \<Rightarrow> string \<Rightarrow> settings \<Rightarrow> world \<Rightarrow> (string + string) \<times> world" where
  "analyzeScreenshot env base64Image settings w =
     (if notSet (visionApiProvider settings) \<or> notSet (textApiProvider settings)
      then (Inl ''API providers not configured.'', w)
      else
        case describeImage (e_backend env) settings base64Image of (vision, calls) \<Rightarrow>
        let w1 = emit ([TabMessage ''updateProgress'', GatewayCall ''describeImage'']
                       @ map NetworkCall calls) w
        in case vision of
             Inl visionError \<Rightarrow> (Inl (''Vision analysis failed: '' @ visionError), w1)
           | Inr described \<Rightarrow>
               let imageDescription = sanitizeSensitiveData described;
                   w2 = w1\<lparr>wstore := e_others1 env (wstore w1)\<rparr>
               in if isCancelled (getState (wstore w2))
                  then (Inl ''Capture cancelled'', w2)
                  else
                    case analyzeText (e_backend env) settings imageDescription of
                      (analysis, calls2) \<Rightarrow>
                    let w3 = emit ([TabMessage ''updateProgress'', GatewayCall ''analyzeText'']
                                   @ map NetworkCall calls2) w2;
                        deepAnalysis =
                          (case analysis of
                             Inl error \<Rightarrow> ''Analysis unavailable: '' @ error
                           | Inr a \<Rightarrow> sanitizeSensitiveData a)
                    in (Inr (formatResult (e_passes env) imageDescription deepAnalysis), w3))"

text \<open>
  \<^verbatim>\<open>showFloatingProgress\<close>, \<^verbatim>\<open>updateFloatingProgress\<close> and \<^verbatim>\<open>hideFloatingProgress\<close>
  swallow every failure; they leave only their calls in the log (those they make when
  none of them fails). The progress callbacks handed to the gateway send further
  \<^verbatim>\<open>updateProgress\<close> messages to the tab; these are not logged.
\<close>

definition showFloatingProgress :: "world \<Rightarrow> world" where
  "showFloatingProgress w =
     emit [ExecuteScript ''progress-indicator.js'', TabMessage ''showProgress''] w"

definition updateFloatingProgress :: "world \<Rightarrow> world" where
  "updateFloatingProgress w = emit [TabMessage ''updateProgress''] w"

definition hideFloatingProgress :: "world \<Rightarrow> world" where
  "hideFloatingProgress w = emit [TabMessage ''hideProgress''] w"

text \<open>The \<^verbatim>\<open>try\<close> block of \<^verbatim>\<open>processCapturedImage\<close>.\<close>

definition processCapturedImage_try :: "env \<Rightarrow> string \<Rightarrow> world \<Rightarrow> (string + unit) \<times> world" where
  "processCapturedImage_try env dataUrl w =
     (let w1 = writeState [''status'' \<mapsto> Some (JStr ''analyzing'')] w;
          w2 = updateFloatingProgress (showFloatingProgress w1);
          settings = e_settings env
      in case secondField dataUrl of
           None \<Rightarrow> (Inl ''Invalid image data'', w2)
         | Some base64Image \<Rightarrow>
             if base64Image = [] then (Inl ''Invalid image data'', w2)
             else
               case analyzeScreenshot env base64Image settings w2 of
                 (Inl error, w3) \<Rightarrow> (Inl error, w3)
               | (Inr result, w3) \<Rightarrow>
                   let w4 = w3\<lparr>wstore := e_others2 env (wstore w3)\<rparr>
                   in if isCancelled (getState (wstore w4))
                      then (Inr (), hideFloatingProgress w4)
                      else
                        (Inr (),
                         emit [TabMessage ''showResult'']
                           (hideFloatingProgress
                              (writeState [''status'' \<mapsto> Some (JStr ''complete''),
                                           ''result'' \<mapsto> Some (JStr result)] w4))))"

text \<open>\<^verbatim>\<open>processCapturedImage(dataUrl, tabId)\<close>: the \<^verbatim>\<open>try\<close> block and its \<^verbatim>\<open>catch\<close>.\<close>

definition processCapturedImage :: "env \<Rightarrow> string \<Rightarrow> world \<Rightarrow> world" where
  "processCapturedImage env dataUrl w =
     (case processCapturedImage_try env dataUrl w of
        (Inr _, w') \<Rightarrow> w'
      | (Inl error, w') \<Rightarrow>
          hideFloatingProgress
            (writeState [''status'' \<mapsto> Some (JStr ''error''),
                         ''error'' \<mapsto> Some (JStr error)] w'))"

subsection \<open>Area selection and the queue handler\<close>

text \<open>The \<^verbatim>\<open>try\<close> block of \<^verbatim>\<open>startAreaSelection(tabId)\<close>.\<close>

definition startAreaSelection_try :: "env \<Rightarrow> jsval option \<Rightarrow> world \<Rightarrow> (string + unit) \<times> world" where
  "startAreaSelection_try env tabId w =
     (let w1 = emit [TabsGet] w
      in case e_tabsGet env of
           Inl tabError \<Rightarrow> (Inl ''Tab was closed. Please try again.'', w1)
         | Inr tabUrl \<Rightarrow>
             (case isRestrictedUrl tabUrl of
                Inl e \<Rightarrow> (Inl e, w1)
              | Inr restricted \<Rightarrow>
                  if restricted
                  then (Inl ''Cannot capture screenshots on this page (Restricted URL).'', w1)
                  else
                    case e_insertCSS env of
                      Some e \<Rightarrow> (Inl e, emit [InsertCSS ''selector.css''] w1)
                    | None \<Rightarrow>
                    let w2 = emit [InsertCSS ''selector.css'', ExecuteScript ''selector.js''] w1
                    in case e_executeScript env of
                         Some e \<Rightarrow> (Inl e, w2)
                       | None \<Rightarrow>
                           let w3 = emit [Delay 500, ExecuteScript ''init'']
                                      (w2\<lparr>wstore := (wstore w2)\<lparr>areaSelection := None\<rparr>\<rparr>)
                           in case e_initResult env of
                                Inl e \<Rightarrow> (Inl e, w3)
                              | Inr None \<Rightarrow> (Inl ''Failed to initialize area selector'', w3)
                              | Inr (Some r) \<Rightarrow>
                                  if \<not> init_success r
                                  then (Inl (if notSet (init_error r)
                                             then ''Failed to initialize area selector''
                                             else shown (init_error r)), w3)
                                  else if \<not> init_ready r
                                  then (Inl ''Area selector overlay is not ready'', w3)
                                  else
                                    (Inr (),
                                     writeState [''status'' \<mapsto> Some (JStr ''selecting''),
                                                 ''tabId'' \<mapsto> tabId]
                                       (w3\<lparr>wstore := (wstore w3)\<lparr>activeCaptureTabId := tabId\<rparr>\<rparr>))))"

text \<open>\<^verbatim>\<open>startAreaSelection(tabId)\<close>: the \<^verbatim>\<open>catch\<close> rewrites three kinds of message.\<close>

definition startAreaSelection :: "env \<Rightarrow> jsval option \<Rightarrow> world \<Rightarrow> world" where
  "startAreaSelection env tabId w =
     (case startAreaSelection_try env tabId w of
        (Inr _, w') \<Rightarrow> w'
      | (Inl error, w') \<Rightarrow>
          let msg = (if sublist ''invalidated'' error
                       then ''Extension was reloaded. Please refresh this page to continue.''
                     else if sublist ''Cannot access'' error
                       then ''Cannot access this page. Please try a different page.''
                     else if sublist ''Tab was closed'' error
                       then ''The tab was closed. Please try again.''
                     else error)
          in writeState [''status'' \<mapsto> Some (JStr ''error''),
                         ''error'' \<mapsto> Some (JStr msg)] w')"

text \<open>
  The two branches of \<^verbatim>\<open>processQueuedRequest\<close> that take a screenshot themselves:
  \<^verbatim>\<open>chrome.tabs.get\<close>, the capture, then \<^verbatim>\<open>processCapturedImage\<close>.
\<close>

definition captureAndProcess :: "env \<Rightarrow> event \<Rightarrow> (string + string) \<Rightarrow> world \<Rightarrow> (string + unit) \<times> world" where
  "captureAndProcess env capture outcome w =
     (case e_tabsGet env of
        Inl e \<Rightarrow> (Inl e, emit [TabsGet] w)
      | Inr _ \<Rightarrow>
          (case outcome of
             Inl e \<Rightarrow> (Inl e, emit [TabsGet, capture] w)
           | Inr dataUrl \<Rightarrow>
               (Inr (), processCapturedImage env dataUrl (emit [TabsGet, capture] w))))"

text \<open>The \<^verbatim>\<open>try\<close> block of \<^verbatim>\<open>processQueuedRequest()\<close>.\<close>

definition processQueuedRequest_try :: "env \<Rightarrow> world \<Rightarrow> (string + unit) \<times> world" where
  "processQueuedRequest_try env w =
     (case dequeue (wstore w) of
        (None, s1) \<Rightarrow> (Inr (), w\<lparr>wstore := s1\<rparr>)
      | (Some request, s1) \<Rightarrow>
          let w1 = w\<lparr>wstore := s1, pollingActive := True\<rparr>;
              mode = request ''mode'';
              url = request ''url'';
              w2 = (if falsy (request ''tabId'') then emit [TabsQuery] w1 else w1)
          in case (if falsy (request ''tabId'') then e_tabsQuery env
                   else Inr (request ''tabId'')) of
               Inl e \<Rightarrow> (Inl e, w2)
             | Inr tabId \<Rightarrow>
             if falsy tabId then (Inl ''Target tab could not be identified.'', w2)
             else
               case isRestrictedUrl url of
                 Inl e \<Rightarrow> (Inl e, w2)
               | Inr restricted \<Rightarrow>
                   if restricted
                   then (Inl ''Cannot capture screenshots on this page (Restricted URL).'', w2)
                   else
                     let w3 = writeState [''status'' \<mapsto> Some (JStr ''capturing''),
                                          ''mode'' \<mapsto> mode,
                                          ''tabId'' \<mapsto> tabId,
                                          ''error'' \<mapsto> Some JNull,
                                          ''result'' \<mapsto> Some JNull] w2
                     in if mode = Some (JStr ''visible'')
                          then captureAndProcess env CaptureVisibleTab (e_captureVisibleTab env) w3
                        else if mode = Some (JStr ''full'')
                          then captureAndProcess env CaptureFullPage (e_captureFullPage env) w3
                        else if mode = Some (JStr ''area'')
                          then (Inr (), startAreaSelection env tabId w3)
                        else (Inr (), w3))"

text \<open>
  \<^verbatim>\<open>processQueuedRequest()\<close>: nothing when the flag is set; else the \<^verbatim>\<open>try\<close> block,
  the \<^verbatim>\<open>catch\<close> that records the error, and the \<^verbatim>\<open>finally\<close> that lowers the flag and
  clears the request.
\<close>

definition processQueuedRequest :: "env \<Rightarrow> world \<Rightarrow> world" where
  "processQueuedRequest env w =
     (if pollingActive w then w
      else
        let w' = (case processQueuedRequest_try env w of
                    (Inr _, w1) \<Rightarrow> w1
                  | (Inl error, w1) \<Rightarrow>
                      writeState [''status'' \<mapsto> Some (JStr ''error''),
                                  ''error'' \<mapsto> Some (JStr error)] w1)
        in emit [RequestCleared]
             (w'\<lparr>pollingActive := False, wstore := clear (wstore w')\<rparr>))"

subsection \<open>Multi-shot capture\<close>

definition CAPTURE_DELAY :: nat where
  "CAPTURE_DELAY = 600"

text \<open>
  \<^verbatim>\<open>error.message && error.message.includes('MAX_CAPTURE_VISIBLE_TAB_CALLS_PER_SECOND')\<close>;
  an error may have no message.
\<close>

definition rateLimited :: "string option \<Rightarrow> bool" where
  "rateLimited message =
     (case message of
        None \<Rightarrow> False
      | Some m \<Rightarrow> m \<noteq> [] \<and> sublist ''MAX_CAPTURE_VISIBLE_TAB_CALLS_PER_SECOND'' m)"

text \<open>The delay awaited in front of the capture of one attempt.\<close>

definition backoff :: "nat \<Rightarrow> nat \<Rightarrow> event list" where
  "backoff maxRetries attempt =
     (if attempt > 0 then [Delay (CAPTURE_DELAY * (attempt + 1))]
      else if maxRetries > 0 then [Delay CAPTURE_DELAY]
      else [])"

text \<open>
  The loop of \<^verbatim>\<open>captureWithRetry(tab, maxRetries)\<close> from one attempt on. \<open>capture\<close>
  gives what \<^verbatim>\<open>chrome.tabs.captureVisibleTab\<close> answers at each attempt: a data URL,
  or the message of the error it throws. The result is the value returned (nothing
  when the loop runs out, which it cannot from attempt 0) or the message of the error
  thrown, with the delays and captures made.
\<close>

function captureWithRetry_from ::
  "(nat \<Rightarrow> string option + string) \<Rightarrow> nat \<Rightarrow> nat
     \<Rightarrow> (string option + string option) \<times> event list" where
  "captureWithRetry_from capture maxRetries attempt =
     (if attempt \<le> maxRetries then
        (case capture attempt of
           Inr dataUrl \<Rightarrow>
             (Inr (Some dataUrl), backoff maxRetries attempt @ [CaptureVisibleTab])
         | Inl message \<Rightarrow>
             if rateLimited message \<and> attempt < maxRetries
             then (case captureWithRetry_from capture maxRetries (Suc attempt) of
                     (r, evs) \<Rightarrow> (r, backoff maxRetries attempt @ [CaptureVisibleTab] @ evs))
             else (Inl message, backoff maxRetries attempt @ [CaptureVisibleTab]))
      else (Inr None, []))"
  by pat_completeness auto
termination
  by (relation "measure (\<lambda>(capture, maxRetries, attempt). Suc maxRetries - attempt)") auto

declare captureWithRetry_from.simps [simp del]

definition captureWithRetry ::
  "(nat \<Rightarrow> string option + string) \<Rightarrow> nat \<Rightarrow> (string option + string option) \<times> event list" where
  "captureWithRetry capture maxRetries = captureWithRetry_from capture maxRetries 0"

text \<open>
  \<^verbatim>\<open>Math.ceil(height / viewport)\<close> for the heights the page reports. With a viewport
  of height 0 and a positive page height the quotient is \<^verbatim>\<open>Infinity\<close> and the loop
  over the shots has no bound: \<open>None\<close>.
\<close>

definition numCaptures :: "nat \<Rightarrow> nat \<Rightarrow> nat option" where
  "numCaptures height viewport =
     (if viewport = 0 then (if height = 0 then Some 0 else None)
      else Some ((height + viewport - 1) div viewport))"

text \<open>
  The shots of \<^verbatim>\<open>captureFullPage(tab)\<close> in background.js, for the shot numbers given:
  scroll to \<^verbatim>\<open>y = i * viewport\<close>, wait, capture with retry, push \<^verbatim>\<open>{dataUrl, y}\<close>.
  \<open>capture i\<close> answers the attempts of shot \<open>i\<close>.
\<close>

fun captureFullPage_shots ::
  "(nat \<Rightarrow> nat \<Rightarrow> string option + string) \<Rightarrow> nat \<Rightarrow> nat list
     \<Rightarrow> (string option + (string option \<times> int) list) \<times> event list" where
  "captureFullPage_shots capture viewport [] = (Inr [], [])"
| "captureFullPage_shots capture viewport (i # rest) =
     (let y = int i * int viewport
      in case captureWithRetry (capture i) 3 of
           (Inl e, evs) \<Rightarrow> (Inl e, [ScrollTo y, Delay 30] @ evs)
         | (Inr dataUrl, evs) \<Rightarrow>
             (case captureFullPage_shots capture viewport rest of
                (Inl e, evs') \<Rightarrow> (Inl e, [ScrollTo y, Delay 30] @ evs @ evs')
              | (Inr captures, evs') \<Rightarrow>
                  (Inr ((dataUrl, y) # captures), [ScrollTo y, Delay 30] @ evs @ evs')))"

definition captureFullPage_captures ::
  "(nat \<Rightarrow> nat \<Rightarrow> string option + string) \<Rightarrow> nat \<Rightarrow> nat
     \<Rightarrow> ((string option + (string option \<times> int) list) \<times> event list) option" where
  "captureFullPage_captures capture height viewport =
     (case numCaptures height viewport of
        None \<Rightarrow> None
      | Some n \<Rightarrow> Some (captureFullPage_shots capture viewport [0..<n]))"

text \<open>
  The shots of \<^verbatim>\<open>captureFullPage()\<close> in the popup script: the offset is
  \<^verbatim>\<open>Math.min(i * viewportHeight, scrollHeight - viewportHeight)\<close>, and the capture is
  one call of \<^verbatim>\<open>chrome.tabs.captureVisibleTab\<close>.
\<close>

fun popup_captureFullPage_shots ::
  "(nat \<Rightarrow> string + string) \<Rightarrow> nat \<Rightarrow> nat \<Rightarrow> nat list
     \<Rightarrow> (string + (string \<times> int) list) \<times> event list" where
  "popup_captureFullPage_shots capture scrollHeight viewportHeight [] = (Inr [], [])"
| "popup_captureFullPage_shots capture scrollHeight viewportHeight (i # rest) =
     (let scrollY = min (int i * int viewportHeight) (int scrollHeight - int viewportHeight)
      in case capture i of
           Inl e \<Rightarrow> (Inl e, [ScrollTo scrollY, Delay 30, CaptureVisibleTab])
         | Inr dataUrl \<Rightarrow>
             (case popup_captureFullPage_shots capture scrollHeight viewportHeight rest of
                (Inl e, evs') \<Rightarrow> (Inl e, [ScrollTo scrollY, Delay 30, CaptureVisibleTab] @ evs')
              | (Inr captures, evs') \<Rightarrow>
                  (Inr ((dataUrl, scrollY) # captures),
                   [ScrollTo scrollY, Delay 30, CaptureVisibleTab] @ evs')))"

definition popup_captureFullPage_captures ::
  "(nat \<Rightarrow> string + string) \<Rightarrow> nat \<Rightarrow> nat
     \<Rightarrow> ((string + (string \<times> int) list) \<times> event list) option" where
  "popup_captureFullPage_captures capture scrollHeight viewportHeight =
     (case numCaptures scrollHeight viewportHeight of
        None \<Rightarrow> None
      | Some n \<Rightarrow>
          Some (popup_captureFullPage_shots capture scrollHeight viewportHeight [0..<n]))"

section \<open>Vocabulary of the properties\<close>

text \<open>A field is present in a state when it is there and is not \<^verbatim>\<open>null\<close>.\<close>

definition present :: "obj \<Rightarrow> string \<Rightarrow> bool" where
  "present st k = (case st k of None \<Rightarrow> False | Some JNull \<Rightarrow> False | Some _ \<Rightarrow> True)"

text \<open>
  The invariant of the capture state: in a state with status \<^verbatim>\<open>complete\<close> or
  \<^verbatim>\<open>error\<close> exactly one of \<^verbatim>\<open>result\<close> and \<^verbatim>\<open>error\<close> is present; in a state with a
  non-terminal status neither is.
\<close>

definition resultErrorInvariant :: "obj \<Rightarrow> bool" where
  "resultErrorInvariant st =
     (if st ''status'' = Some (JStr ''complete'') \<or> st ''status'' = Some (JStr ''error'')
      then present st ''result'' \<noteq> present st ''error''
      else if st ''status'' = Some (JStr ''capturing'') \<or> st ''status'' = Some (JStr ''selecting'')
              \<or> st ''status'' = Some (JStr ''processing'') \<or> st ''status'' = Some (JStr ''analyzing'')
      then \<not> present st ''result'' \<and> \<not> present st ''error''
      else True)"

definition writesStatus :: "string \<Rightarrow> event \<Rightarrow> bool" where
  "writesStatus st ev =
     (case ev of StateWrite state \<Rightarrow> state ''status'' = Some (Some (JStr st)) | _ \<Rightarrow> False)"

text \<open>The calls that capture or that touch the page to prepare a capture.\<close>

definition isCaptureOperation :: "event \<Rightarrow> bool" where
  "isCaptureOperation ev =
     (case ev of CaptureVisibleTab \<Rightarrow> True | CaptureFullPage \<Rightarrow> True
               | InsertCSS _ \<Rightarrow> True | ExecuteScript _ \<Rightarrow> True | ScrollTo _ \<Rightarrow> True
               | _ \<Rightarrow> False)"

text \<open>
  The message with which a request for a restricted page is rejected: when the request
  names no tab, the active tab is asked for first, and that may fail on its own.
\<close>

definition rejectionMessage :: "env \<Rightarrow> obj \<Rightarrow> string" where
  "rejectionMessage env request =
     (if falsy (request ''tabId'') then
        (case e_tabsQuery env of
           Inl e \<Rightarrow> e
         | Inr activeId \<Rightarrow>
             if falsy activeId then ''Target tab could not be identified.''
             else ''Cannot capture screenshots on this page (Restricted URL).'')
      else ''Cannot capture screenshots on this page (Restricted URL).'')"

text \<open>The store and the worker right after status \<^verbatim>\<open>analyzing\<close> is written.\<close>

definition analyzingStore :: "world \<Rightarrow> store" where
  "analyzingStore w =
     updateState (clock w) [''status'' \<mapsto> Some (JStr ''analyzing'')] (wstore w)"

definition analyzingWorld :: "world \<Rightarrow> world" where
  "analyzingWorld w =
     updateFloatingProgress (showFloatingProgress
       (writeState [''status'' \<mapsto> Some (JStr ''analyzing'')] w))"

text \<open>An attempt that fails with the rate-limit message.\<close>

definition rateLimitFailure :: "string option + string \<Rightarrow> bool" where
  "rateLimitFailure outcome = (case outcome of Inl m \<Rightarrow> rateLimited m | Inr _ \<Rightarrow> False)"

text \<open>What \<^verbatim>\<open>captureWithRetry\<close> makes of the attempt it stops at.\<close>

definition settle :: "string option + string \<Rightarrow> string option + string option" where
  "settle outcome = (case outcome of Inl m \<Rightarrow> Inl m | Inr d \<Rightarrow> Inr (Some d))"

text \<open>The delays and captures of the attempts \<open>a\<close> to \<open>k\<close>.\<close>

definition schedule :: "nat \<Rightarrow> nat \<Rightarrow> nat \<Rightarrow> event list" where
  "schedule maxRetries a k =
     concat (map (\<lambda>j. backoff maxRetries j @ [CaptureVisibleTab]) [a..<Suc k])"

definition scrolls :: "event list \<Rightarrow> int list" where
  "scrolls evs = concat (map (\<lambda>ev. case ev of ScrollTo y \<Rightarrow> [y] | _ \<Rightarrow> []) evs)"

text \<open>An offset past the last position that still shows the document.\<close>

definition exceedsBottom :: "nat \<Rightarrow> nat \<Rightarrow> int \<Rightarrow> bool" where
  "exceedsBottom totalHeight viewportHeight y = (y > int totalHeight - int viewportHeight)"

text \<open>The credential that \<^verbatim>\<open>validateRequiredKey\<close> asks of a provider, if any.\<close>

definition requiredCredential :: "string option \<Rightarrow> settings \<Rightarrow> string option" where
  "requiredCredential provider settings =
     (if provider = Some ''openai'' then Some (openaiApiKey settings)
      else if provider = Some ''anthropic'' then Some (anthropicApiKey settings)
      else if provider = Some ''google-gemini'' then Some (geminiApiKey settings)
      else if provider = Some ''ollama-cloud'' then Some (ollamaApiKey settings)
      else if provider = Some ''google-vision'' then Some (googleApiKey settings)
      else None)"

definition cachedFresh :: "cache \<Rightarrow> string \<Rightarrow> nat \<Rightarrow> bool" where
  "cachedFresh c cacheKey now =
     (cache_models c cacheKey \<noteq> None
      \<and> (case cache_expiry c cacheKey of None \<Rightarrow> False | Some e \<Rightarrow> e > now))"

section \<open>Example inputs\<close>

definition exampleSettings :: settings where
  "exampleSettings =
     \<lparr>visionApiProvider = Some ''ollama'', textApiProvider = Some ''ollama'',
      visionModel = ''qwen3-vl:4b'', textModel = ''qwen3-coder:480b-cloud'',
      ollamaApiKey = [], googleApiKey = [], openaiApiKey = [],
      anthropicApiKey = [], geminiApiKey = []\<rparr>"

text \<open>
  A browser in which every call succeeds, with the given AI backend and the given
  writes of other contexts at the two checkpoints.
\<close>

definition exampleEnv :: "backend \<Rightarrow> (store \<Rightarrow> store) \<Rightarrow> (store \<Rightarrow> store) \<Rightarrow> env" where
  "exampleEnv backend others1 others2 =
     \<lparr>e_tabsQuery = Inr (Some (JNum 1)),
      e_tabsGet = Inr (Some (JStr ''https://example.com/'')),
      e_captureVisibleTab = Inr ''data:image/png;base64,AAAA'',
      e_captureFullPage = Inr ''data:image/png;base64,BBBB'',
      e_insertCSS = None,
      e_executeScript = None,
      e_initResult = Inr None,
      e_settings = exampleSettings,
      e_backend = backend,
      e_passes = (\<lambda>t. ''<div>'' @ t @ ''</div>''),
      e_others1 = others1,
      e_others2 = others2\<rparr>"

definition allSucceed :: backend where
  "allSucceed i input =
     (case i of DescribeImageOllama \<Rightarrow> Inr ''Invoice 42'' | _ \<Rightarrow> Inr ''An invoice.'')"

definition textFails :: backend where
  "textFails i input =
     (case i of DescribeImageOllama \<Rightarrow> Inr ''Invoice 42'' | _ \<Rightarrow> Inl ''model not loaded'')"

definition visionFails :: backend where
  "visionFails i input = Inl ''connection refused''"

definition readsSSN :: backend where
  "readsSSN i input =
     (case i of DescribeImageOllama \<Rightarrow> Inr ''123-45-6789'' | _ \<Rightarrow> Inl ''model not loaded'')"

definition startWorld :: "store \<Rightarrow> world" where
  "startWorld s = \<lparr>wstore = s, pollingActive = False, clock = 0, trace = []\<rparr>"

definition visibleRequest :: obj where
  "visibleRequest = [''mode'' \<mapsto> JStr ''visible'', ''url'' \<mapsto> JStr ''https://example.com/'',
                     ''tabId'' \<mapsto> JNum 5]"

definition restrictedRequest :: obj where
  "restrictedRequest = [''mode'' \<mapsto> JStr ''visible'', ''url'' \<mapsto> JStr ''chrome://settings'',
                        ''tabId'' \<mapsto> JNum 5]"

text \<open>
  A capture of the visible area runs to completion and no consumer resets the store;
  then a capture of a restricted page is requested.
\<close>

definition afterFirstCapture :: world where
  "afterFirstCapture =
     processQueuedRequest (exampleEnv allSucceed id id)
       (startWorld (snd (enqueue 1000 ''k3j9x0a1b'' visibleRequest emptyStore)))"

definition afterRestrictedRequest :: world where
  "afterRestrictedRequest =
     processQueuedRequest (exampleEnv allSucceed id id)
       (afterFirstCapture\<lparr>wstore :=
          snd (enqueue 2000 ''z8y7w6v5u'' restrictedRequest (wstore afterFirstCapture))\<rparr>)"

text \<open>
  States of the worker that can be reached from the empty store when requests are
  enqueued, the queue handler runs in some environment, a consumer resets the store,
  and a cancel message is handled.
\<close>

inductive reachable :: "world \<Rightarrow> bool" where
  start: "reachable (startWorld emptyStore)"
| enqueued: "reachable w \<Longrightarrow>
     reachable (w\<lparr>wstore := snd (enqueue now rnd request (wstore w))\<rparr>)"
| processed: "reachable w \<Longrightarrow> reachable (processQueuedRequest env w)"
| consumed: "reachable w \<Longrightarrow> reachable (w\<lparr>wstore := reset (wstore w)\<rparr>)"
| cancelMessage: "reachable w \<Longrightarrow>
     reachable (w\<lparr>wstore := handleCancelCapture now (wstore w)\<rparr>)"

definition offline :: network where
  "offline url = Rejected ''Failed to fetch''"

section \<open>Properties of the store\<close>

lemma updateState_current:
  "currentCapture (updateState now P s) =
     Some ((spread (currentOrEmpty s) P)(''updatedAt'' \<mapsto> JNum (int now)))"
  by (simp add: updateState_def currentOrEmpty_def Let_def)

lemma updateState_frame:
  "captureRequest (updateState now P s) = captureRequest s"
  "areaSelection (updateState now P s) = areaSelection s"
  "activeCaptureTabId (updateState now P s) = activeCaptureTabId s"
  by (simp_all add: updateState_def Let_def)

lemma getState_updateState:
  "getState (updateState now P s) =
     Some ((spread (currentOrEmpty s) P)(''updatedAt'' \<mapsto> JNum (int now)))"
  by (simp add: getState_def updateState_current)

lemma currentOrEmpty_updateState:
  "currentOrEmpty (updateState now P s) =
     (spread (currentOrEmpty s) P)(''updatedAt'' \<mapsto> JNum (int now))"
  by (simp add: currentOrEmpty_def updateState_current)

text \<open>
  C1. For every store whose \<^verbatim>\<open>captureRequest\<close> entry holds a request with status
  \<^verbatim>\<open>pending\<close>, \<open>dequeue\<close> flips that status to \<^verbatim>\<open>processing\<close>, writes the request
  back and returns it; for every store in which the entry is absent or has another
  status, \<open>dequeue\<close> returns nothing and leaves the store as it is. Hence two calls in
  succession after one \<open>enqueue\<close> yield the request once, and then nothing.
\<close>

theorem dequeue_claims_pending_once:
  "(captureRequest s = Some r \<and> r ''status'' = Some (JStr ''pending'') \<longrightarrow>
      dequeue s = (Some (r(''status'' \<mapsto> JStr ''processing'')),
                   s\<lparr>captureRequest := Some (r(''status'' \<mapsto> JStr ''processing''))\<rparr>))
   \<and> (captureRequest s = None \<or>
        (captureRequest s = Some r \<and> r ''status'' \<noteq> Some (JStr ''pending'')) \<longrightarrow>
      dequeue s = (None, s))
   \<and> (case enqueue now rnd request s of (ident, s1) \<Rightarrow>
        case dequeue s1 of (first, s2) \<Rightarrow>
        case dequeue s2 of (second, s3) \<Rightarrow>
          first = Some ((request ++ [''id'' \<mapsto> JStr ident,
                                     ''timestamp'' \<mapsto> JNum (int now)])
                          (''status'' \<mapsto> JStr ''processing''))
          \<and> second = None \<and> s3 = s2)"
proof (intro conjI impI)
  assume "captureRequest s = Some r \<and> r ''status'' = Some (JStr ''pending'')"
  then show "dequeue s = (Some (r(''status'' \<mapsto> JStr ''processing'')),
                   s\<lparr>captureRequest := Some (r(''status'' \<mapsto> JStr ''processing''))\<rparr>)"
    by (simp add: dequeue_def Let_def)
next
  assume "captureRequest s = None \<or>
        (captureRequest s = Some r \<and> r ''status'' \<noteq> Some (JStr ''pending''))"
  then show "dequeue s = (None, s)"
    by (auto simp: dequeue_def)
next
  show "case enqueue now rnd request s of (ident, s1) \<Rightarrow>
        case dequeue s1 of (first, s2) \<Rightarrow>
        case dequeue s2 of (second, s3) \<Rightarrow>
          first = Some ((request ++ [''id'' \<mapsto> JStr ident,
                                     ''timestamp'' \<mapsto> JNum (int now)])
                          (''status'' \<mapsto> JStr ''processing''))
          \<and> second = None \<and> s3 = s2"
    by (simp add: enqueue_def dequeue_def Let_def)
qed

theorem dequeue_claims_pending_once_witness:
  "dequeue (emptyStore\<lparr>captureRequest := Some [''mode'' \<mapsto> JStr ''visible'',
                                                 ''status'' \<mapsto> JStr ''pending'']\<rparr>)
     = (Some [''mode'' \<mapsto> JStr ''visible'', ''status'' \<mapsto> JStr ''processing''],
        emptyStore\<lparr>captureRequest := Some [''mode'' \<mapsto> JStr ''visible'',
                                                ''status'' \<mapsto> JStr ''processing'']\<rparr>)
   \<and> dequeue emptyStore = (None, emptyStore)
   \<and> dequeue (emptyStore\<lparr>captureRequest := Some [''status'' \<mapsto> JStr ''processing'']\<rparr>)
     = (None, emptyStore\<lparr>captureRequest := Some [''status'' \<mapsto> JStr ''processing'']\<rparr>)"
  using dequeue_claims_pending_once
          [of "emptyStore\<lparr>captureRequest := Some [''mode'' \<mapsto> JStr ''visible'',
                                                     ''status'' \<mapsto> JStr ''pending'']\<rparr>"
              "[''mode'' \<mapsto> JStr ''visible'', ''status'' \<mapsto> JStr ''pending'']"]
        dequeue_claims_pending_once [of emptyStore Map.empty]
        dequeue_claims_pending_once
          [of "emptyStore\<lparr>captureRequest := Some [''status'' \<mapsto> JStr ''processing'']\<rparr>"
              "[''status'' \<mapsto> JStr ''processing'']"]
  by (simp add: emptyStore_def)

text \<open>
  C2. For every prior capture state \<open>S\<close> and partial update \<open>P\<close>, \<open>updateState\<close>
  stores \<open>S\<close> overlaid with the fields of \<open>P\<close> plus a fresh \<^verbatim>\<open>updatedAt\<close>; a field
  that \<open>P\<close> does not name keeps the value it has in \<open>S\<close> (the timestamp apart), and
  \<^verbatim>\<open>updateState({a:1})\<close> followed by \<^verbatim>\<open>updateState({b:2})\<close> leaves both \<^verbatim>\<open>a:1\<close> and
  \<^verbatim>\<open>b:2\<close> in the state.
\<close>

theorem updateState_shallow_merge:
  "getState (updateState now P s) =
     Some ((spread (currentOrEmpty s) P)(''updatedAt'' \<mapsto> JNum (int now)))
   \<and> (\<forall>k. k \<noteq> ''updatedAt'' \<longrightarrow>
          currentOrEmpty (updateState now P s) k =
            (case P k of None \<Rightarrow> currentOrEmpty s k | Some v \<Rightarrow> v))
   \<and> (\<forall>k. P k = None \<and> k \<noteq> ''updatedAt'' \<longrightarrow>
          currentOrEmpty (updateState now P s) k = currentOrEmpty s k)
   \<and> currentOrEmpty (updateState now P s) ''updatedAt'' = Some (JNum (int now))
   \<and> currentOrEmpty (updateState t2 [''b'' \<mapsto> Some (JNum 2)]
                          (updateState t1 [''a'' \<mapsto> Some (JNum 1)] s)) ''a'' = Some (JNum 1)
   \<and> currentOrEmpty (updateState t2 [''b'' \<mapsto> Some (JNum 2)]
                          (updateState t1 [''a'' \<mapsto> Some (JNum 1)] s)) ''b'' = Some (JNum 2)"
proof (intro conjI allI impI)
  show "getState (updateState now P s) =
          Some ((spread (currentOrEmpty s) P)(''updatedAt'' \<mapsto> JNum (int now)))"
    by (rule getState_updateState)
next
  fix k :: string
  assume "k \<noteq> ''updatedAt''"
  then show "currentOrEmpty (updateState now P s) k =
               (case P k of None \<Rightarrow> currentOrEmpty s k | Some v \<Rightarrow> v)"
    by (simp add: currentOrEmpty_updateState spread_def)
next
  fix k :: string
  assume "P k = None \<and> k \<noteq> ''updatedAt''"
  then show "currentOrEmpty (updateState now P s) k = currentOrEmpty s k"
    by (simp add: currentOrEmpty_updateState spread_def)
next
  show "currentOrEmpty (updateState now P s) ''updatedAt'' = Some (JNum (int now))"
    by (simp add: currentOrEmpty_updateState)
next
  let ?s1 = "updateState t1 [''a'' \<mapsto> Some (JNum 1)] s"
  have a: "currentOrEmpty ?s1 ''a'' = Some (JNum 1)"
    by (simp add: currentOrEmpty_updateState spread_def)
  show "currentOrEmpty (updateState t2 [''b'' \<mapsto> Some (JNum 2)] ?s1) ''a'' = Some (JNum 1)"
    using a by (simp add: currentOrEmpty_updateState spread_def)
  show "currentOrEmpty (updateState t2 [''b'' \<mapsto> Some (JNum 2)] ?s1) ''b'' = Some (JNum 2)"
    by (simp add: currentOrEmpty_updateState spread_def)
qed

theorem updateState_shallow_merge_witness:
  "getState (updateState 7 [''status'' \<mapsto> Some (JStr ''analyzing'')]
               (emptyStore\<lparr>currentCapture := Some [''mode'' \<mapsto> JStr ''full'']\<rparr>))
     = Some [''mode'' \<mapsto> JStr ''full'', ''status'' \<mapsto> JStr ''analyzing'',
             ''updatedAt'' \<mapsto> JNum 7]"
proof -
  let ?s = "emptyStore\<lparr>currentCapture := Some [''mode'' \<mapsto> JStr ''full'']\<rparr>"
  let ?P = "[''status'' \<mapsto> Some (JStr ''analyzing'')] :: literal"
  have frame: "currentOrEmpty (updateState 7 ?P ?s) ''mode'' = currentOrEmpty ?s ''mode''"
    using updateState_shallow_merge [of 7 ?P ?s] by simp
  have "getState (updateState 7 ?P ?s) =
          Some ((spread (currentOrEmpty ?s) ?P)(''updatedAt'' \<mapsto> JNum (int 7)))"
    using updateState_shallow_merge [of 7 ?P ?s] by blast
  then show ?thesis
    using frame by (auto simp: currentOrEmpty_def emptyStore_def spread_def fun_eq_iff)
qed

text \<open>
  C10. Handling \<^verbatim>\<open>cancelCapture\<close> writes status \<^verbatim>\<open>cancelled\<close> through \<open>cancel\<close> and
  then calls \<open>reset\<close>, which deletes the request and the state: whatever the store
  was, after the handler \<open>getState\<close> returns nothing, so a consumer polling after the
  handler never reads the status \<^verbatim>\<open>cancelled\<close>.
\<close>

theorem handleCancelCapture_erases_cancelled:
  "handleCancelCapture now s = reset (cancel now s)
   \<and> currentOrEmpty (cancel now s) ''status'' = Some (JStr ''cancelled'')
   \<and> getState (handleCancelCapture now s) = None
   \<and> captureRequest (handleCancelCapture now s) = None
   \<and> currentCapture (handleCancelCapture now s) = None
   \<and> (\<nexists>st. getState (handleCancelCapture now s) = Some st
              \<and> st ''status'' = Some (JStr ''cancelled''))"
  by (simp add: handleCancelCapture_def reset_def cancel_def getState_def
        currentOrEmpty_updateState spread_def)

section \<open>Properties of the capture loop\<close>

lemma schedule_step:
  assumes "a \<le> k"
  shows "schedule maxRetries a k =
           backoff maxRetries a @ [CaptureVisibleTab]
             @ (if a < k then schedule maxRetries (Suc a) k else [])"
proof -
  have "[a..<Suc k] = a # [Suc a..<Suc k]"
    using assms by (simp add: upt_conv_Cons del: upt_Suc)
  then have "schedule maxRetries a k =
               backoff maxRetries a @ [CaptureVisibleTab] @ schedule maxRetries (Suc a) k"
    unfolding schedule_def by simp
  moreover have "\<not> a < k \<Longrightarrow> schedule maxRetries (Suc a) k = []"
    using assms by (simp add: schedule_def)
  ultimately show ?thesis by simp
qed

lemma captureWithRetry_from_stops:
  assumes "a \<le> k" and "k \<le> maxRetries"
    and "\<forall>j. a \<le> j \<and> j < k \<longrightarrow> rateLimitFailure (capture j)"
    and "k = maxRetries \<or> \<not> rateLimitFailure (capture k)"
  shows "captureWithRetry_from capture maxRetries a =
           (settle (capture k), schedule maxRetries a k)"
  using assms
proof (induction "k - a" arbitrary: a)
  case 0
  then have ak: "a = k" by simp
  have st: "schedule maxRetries k k = backoff maxRetries k @ [CaptureVisibleTab]"
    by (simp add: schedule_step)
  show ?case
    unfolding ak using 0(3,5) st
    by (subst captureWithRetry_from.simps)
       (auto simp: settle_def rateLimitFailure_def split: sum.splits)
next
  case (Suc n)
  then have lt: "a < k" by simp
  then have rl: "rateLimitFailure (capture a)" using Suc.prems by simp
  have IH: "captureWithRetry_from capture maxRetries (Suc a) =
              (settle (capture k), schedule maxRetries (Suc a) k)"
    using Suc.hyps(1)[of "Suc a"] Suc.hyps(2) Suc.prems lt by auto
  have st: "schedule maxRetries a k =
              backoff maxRetries a @ [CaptureVisibleTab] @ schedule maxRetries (Suc a) k"
    using lt by (simp add: schedule_step)
  have "a \<le> maxRetries" "a < maxRetries" using lt Suc.prems(2) by simp_all
  then show ?case
    using rl IH st
    by (subst captureWithRetry_from.simps)
       (simp add: rateLimitFailure_def split: sum.splits)
qed

lemma stop_exists:
  "\<exists>k\<le>(maxRetries::nat). (\<forall>j<k. rateLimitFailure (capture j))
      \<and> (k = maxRetries \<or> \<not> rateLimitFailure (capture k))"
proof (induction maxRetries)
  case 0
  then show ?case by simp
next
  case (Suc m)
  then obtain k where k: "k \<le> m" "\<forall>j<k. rateLimitFailure (capture j)"
    "k = m \<or> \<not> rateLimitFailure (capture k)" by blast
  show ?case
  proof (cases "rateLimitFailure (capture k)")
    case False
    with k show ?thesis by (intro exI[of _ k]) simp
  next
    case True
    with k have "k = m" by blast
    with True k(2) have "\<forall>j<Suc m. rateLimitFailure (capture j)"
      by (simp add: less_Suc_eq)
    then show ?thesis by (intro exI[of _ "Suc m"]) simp
  qed
qed

lemma attempts_schedule:
  "length (filter (\<lambda>e. e = CaptureVisibleTab) (schedule maxRetries 0 k)) = Suc k"
  by (induction k) (simp_all add: schedule_def backoff_def)

lemma delays_schedule:
  "filter (\<lambda>e. e \<noteq> CaptureVisibleTab) (schedule (Suc m) 0 k) =
     map (\<lambda>j. Delay (600 * (j + 1))) [0..<Suc k]"
  by (induction k) (simp_all add: schedule_def backoff_def CAPTURE_DELAY_def)

text \<open>
  C8. Every attempt of \<open>captureWithRetry\<close> that fails with the rate-limit message is
  retried, after a delay that grows with the attempt (600 ms times the number of the
  attempt), at most \<open>maxRetries\<close> times; the helper stops at the first attempt \<open>k\<close> that
  does not fail in that way, or at attempt \<open>maxRetries\<close>, and returns or throws what
  that attempt gave, having captured \<open>k + 1\<close> times. So a failure of another kind is
  thrown at once, and a rate-limit failure is thrown only by the last attempt allowed.
\<close>

theorem captureWithRetry_retries_only_rate_limit:
  "(k \<le> maxRetries \<and> (\<forall>j<k. rateLimitFailure (capture j))
      \<and> (k = maxRetries \<or> \<not> rateLimitFailure (capture k)) \<longrightarrow>
        captureWithRetry capture maxRetries = (settle (capture k), schedule maxRetries 0 k))
   \<and> (\<exists>k\<le>maxRetries. (\<forall>j<k. rateLimitFailure (capture j))
          \<and> (k = maxRetries \<or> \<not> rateLimitFailure (capture k))
          \<and> captureWithRetry capture maxRetries = (settle (capture k), schedule maxRetries 0 k))
   \<and> length (filter (\<lambda>e. e = CaptureVisibleTab) (schedule maxRetries 0 k)) = Suc k
   \<and> (0 < maxRetries \<longrightarrow>
        filter (\<lambda>e. e \<noteq> CaptureVisibleTab) (schedule maxRetries 0 k) =
          map (\<lambda>j. Delay (600 * (j + 1))) [0..<Suc k])"
proof (intro conjI impI)
  assume h: "k \<le> maxRetries \<and> (\<forall>j<k. rateLimitFailure (capture j))
      \<and> (k = maxRetries \<or> \<not> rateLimitFailure (capture k))"
  then show "captureWithRetry capture maxRetries = (settle (capture k), schedule maxRetries 0 k)"
    unfolding captureWithRetry_def
    by (intro captureWithRetry_from_stops) auto
next
  obtain k' where k': "k' \<le> maxRetries" "\<forall>j<k'. rateLimitFailure (capture j)"
      "k' = maxRetries \<or> \<not> rateLimitFailure (capture k')"
    using stop_exists[of maxRetries capture] by blast
  then have "captureWithRetry capture maxRetries = (settle (capture k'), schedule maxRetries 0 k')"
    unfolding captureWithRetry_def
    by (intro captureWithRetry_from_stops) auto
  with k' show "\<exists>k\<le>maxRetries. (\<forall>j<k. rateLimitFailure (capture j))
          \<and> (k = maxRetries \<or> \<not> rateLimitFailure (capture k))
          \<and> captureWithRetry capture maxRetries = (settle (capture k), schedule maxRetries 0 k)"
    by blast
next
  show "length (filter (\<lambda>e. e = CaptureVisibleTab) (schedule maxRetries 0 k)) = Suc k"
    by (rule attempts_schedule)
next
  assume "0 < maxRetries"
  then obtain m where "maxRetries = Suc m" by (cases maxRetries) auto
  then show "filter (\<lambda>e. e \<noteq> CaptureVisibleTab) (schedule maxRetries 0 k) =
          map (\<lambda>j. Delay (600 * (j + 1))) [0..<Suc k]"
    by (simp only: delays_schedule)
qed

text \<open>
  Two rate-limit failures, then a success: three captures, after 600, 1200 and 1800 ms.
  One failure of another kind: thrown after the first capture.
\<close>

theorem captureWithRetry_retries_only_rate_limit_witness:
  "captureWithRetry
     (\<lambda>n. if n < 2 then Inl (Some ''MAX_CAPTURE_VISIBLE_TAB_CALLS_PER_SECOND'')
           else Inr ''data:image/png;base64,AAAA'') 3
     = (Inr (Some ''data:image/png;base64,AAAA''),
        [Delay 600, CaptureVisibleTab, Delay 1200, CaptureVisibleTab,
         Delay 1800, CaptureVisibleTab])
   \<and> captureWithRetry (\<lambda>n. Inl (Some ''Tab not found'')) 3
     = (Inl (Some ''Tab not found''), [Delay 600, CaptureVisibleTab])"
proof -
  let ?c = "\<lambda>n::nat. if n < 2 then Inl (Some ''MAX_CAPTURE_VISIBLE_TAB_CALLS_PER_SECOND'')
                       else (Inr ''data:image/png;base64,AAAA'' :: string option + string)"
  let ?d = "\<lambda>n::nat. (Inl (Some ''Tab not found'') :: string option + string)"
  have rl: "rateLimited (Some ''MAX_CAPTURE_VISIBLE_TAB_CALLS_PER_SECOND'')"
    by (simp add: rateLimited_def)
  have nrl: "\<not> rateLimited (Some ''Tab not found'')"
    by (simp add: rateLimited_def sublist_code)
  have "(2::nat) \<le> 3 \<and> (\<forall>j<2. rateLimitFailure (?c j))
          \<and> ((2::nat) = 3 \<or> \<not> rateLimitFailure (?c 2))"
    using rl by (simp add: rateLimitFailure_def)
  then have one: "captureWithRetry ?c 3 = (settle (?c 2), schedule 3 0 2)"
    using captureWithRetry_retries_only_rate_limit [of 2 3 ?c] by blast
  have "(0::nat) \<le> 3 \<and> (\<forall>j<0. rateLimitFailure (?d j))
          \<and> ((0::nat) = 3 \<or> \<not> rateLimitFailure (?d 0))"
    using nrl by (simp add: rateLimitFailure_def)
  then have two: "captureWithRetry ?d 3 = (settle (?d 0), schedule 3 0 0)"
    using captureWithRetry_retries_only_rate_limit [of 0 3 ?d] by blast
  have s2: "schedule 3 0 2 = [Delay 600, CaptureVisibleTab, Delay 1200, CaptureVisibleTab,
         Delay 1800, CaptureVisibleTab]"
    by (simp add: schedule_def backoff_def CAPTURE_DELAY_def upt_conv_Cons)
  have s0: "schedule 3 0 0 = [Delay 600, CaptureVisibleTab]"
    by (simp add: schedule_def backoff_def CAPTURE_DELAY_def)
  show ?thesis
    unfolding one two s2 s0 by (simp add: settle_def)
qed

lemma scrolls_append [simp]: "scrolls (xs @ ys) = scrolls xs @ scrolls ys"
  by (simp add: scrolls_def)

lemma scrolls_simps [simp]:
  "scrolls [] = []"
  "scrolls (CaptureVisibleTab # evs) = scrolls evs"
  "scrolls (Delay n # evs) = scrolls evs"
  "scrolls (ScrollTo y # evs) = y # scrolls evs"
  by (simp_all add: scrolls_def)

lemma scrolls_backoff [simp]: "scrolls (backoff maxRetries attempt) = []"
  by (simp add: backoff_def)

lemma scrolls_captureWithRetry_from:
  "scrolls (snd (captureWithRetry_from capture maxRetries attempt)) = []"
proof (induction capture maxRetries attempt rule: captureWithRetry_from.induct)
  case (1 capture maxRetries attempt)
  show ?case
    using 1
    by (subst captureWithRetry_from.simps)
       (auto split: sum.splits prod.splits)
qed

lemma background_scrolls_unclamped:
  "captureFullPage_shots capture viewport shots = (Inr captures, evs)
   \<Longrightarrow> map snd captures = map (\<lambda>i. int i * int viewport) shots
       \<and> scrolls evs = map (\<lambda>i. int i * int viewport) shots"
proof (induction shots arbitrary: captures evs)
  case Nil
  then show ?case by simp
next
  case (Cons i rest)
  obtain r1 e1 where c: "captureWithRetry (capture i) 3 = (r1, e1)"
    by (cases "captureWithRetry (capture i) 3") auto
  have e1: "scrolls e1 = []"
    using scrolls_captureWithRetry_from[of "capture i" 3 0] c
    by (simp add: captureWithRetry_def)
  obtain r2 e2 where s: "captureFullPage_shots capture viewport rest = (r2, e2)"
    by (cases "captureFullPage_shots capture viewport rest") auto
  from Cons.prems c s obtain d cs where
    r: "r1 = Inr d" "r2 = Inr cs" "captures = (d, int i * int viewport) # cs"
       "evs = [ScrollTo (int i * int viewport), Delay 30] @ e1 @ e2"
    by (auto simp: Let_def split: sum.splits)
  from Cons.IH[of cs e2] s r(2)
  have ih: "map snd cs = map (\<lambda>i. int i * int viewport) rest"
           "scrolls e2 = map (\<lambda>i. int i * int viewport) rest" by simp_all
  show ?case
    using r ih e1 by simp
qed


lemma numCaptures_last:
  assumes "0 < viewport" and "height mod viewport \<noteq> 0"
  shows "numCaptures height viewport = Some (Suc (height div viewport))"
proof -
  define q where "q = height div viewport"
  define r where "r = height mod viewport"
  have r: "0 < r" "r < viewport" using assms by (simp_all add: r_def)
  have h: "height = q * viewport + r" by (simp add: q_def r_def)
  have "height + viewport - 1 = (r - 1) + Suc q * viewport"
    using r h by simp
  then have "(height + viewport - 1) div viewport = (r - 1) div viewport + Suc q"
    using assms(1) by (simp only: div_mult_self1) 
  moreover have "(r - 1) div viewport = 0" using r by simp
  ultimately show ?thesis using assms(1) by (simp add: numCaptures_def q_def)
qed

lemma background_last_shot_past_bottom:
  assumes "0 < viewport" and "height mod viewport \<noteq> 0"
  shows "exceedsBottom height viewport (int (height div viewport) * int viewport)"
proof -
  have "height = height div viewport * viewport + height mod viewport" by simp
  moreover have "height mod viewport < viewport" using assms by simp
  ultimately have "height < height div viewport * viewport + viewport" by linarith
  then have "int height < int (height div viewport) * int viewport + int viewport"
    by (metis of_nat_add of_nat_less_iff of_nat_mult)
  then show ?thesis by (simp add: exceedsBottom_def)
qed

text \<open>
  The background worker never clamps: when the height of the page is not a multiple of
  the height of the viewport and every shot succeeds, the shots scroll to the multiples
  of the viewport height, and the last of them lies past the bottom.
\<close>

lemma background_captureFullPage_never_clamps:
  assumes "0 < viewport" and "height mod viewport \<noteq> 0"
      and "captureFullPage_captures capture height viewport = Some (Inr captures, evs)"
  shows "scrolls evs = map (\<lambda>i. int i * int viewport) [0..<Suc (height div viewport)]"
    and "list_ex (exceedsBottom height viewport) (scrolls evs)"
proof -
  from assms(3) numCaptures_last[OF assms(1,2)]
  have sh: "captureFullPage_shots capture viewport [0..<Suc (height div viewport)]
              = (Inr captures, evs)"
    by (simp add: captureFullPage_captures_def)
  from background_scrolls_unclamped[OF sh]
  show sc: "scrolls evs = map (\<lambda>i. int i * int viewport) [0..<Suc (height div viewport)]"
    by blast
  show "list_ex (exceedsBottom height viewport) (scrolls evs)"
    unfolding sc using background_last_shot_past_bottom[OF assms(1,2)]
    by (simp add: list_ex_iff)
qed

text \<open>
  The popup script clamps every offset: no shot of its \<^verbatim>\<open>captureFullPage\<close> scrolls
  past \<^verbatim>\<open>scrollHeight - viewportHeight\<close>.
\<close>

lemma popup_scrolls_clamped:
  "list_all (\<lambda>y. \<not> exceedsBottom scrollHeight viewportHeight y)
     (scrolls (snd (popup_captureFullPage_shots capture scrollHeight viewportHeight shots)))"
  by (induction shots)
     (auto simp: scrolls_def exceedsBottom_def Let_def split: sum.splits prod.splits)

lemma popup_captures_clamped:
  "popup_captureFullPage_shots capture scrollHeight viewportHeight shots = (Inr captures, evs)
   \<Longrightarrow> list_all (\<lambda>y. \<not> exceedsBottom scrollHeight viewportHeight y) (map snd captures)"
  by (induction shots arbitrary: captures evs)
     (auto simp: exceedsBottom_def Let_def split: sum.splits prod.splits)

text \<open>
  C7 (every shot's offset is clamped to \<^verbatim>\<open>totalHeight - viewportHeight\<close>), evaluated
  for \<^verbatim>\<open>captureFullPage\<close> of background.js on a page 1000 pixels high in a viewport of
  600: the second shot scrolls to 600, past 400, where the popup's \<^verbatim>\<open>captureFullPage\<close>
  scrolls to 400.
\<close>

theorem background_captureFullPage_scrolls_past_bottom:
  "captureFullPage_captures (\<lambda>i n. Inr ''shot'') 1000 600 =
     Some (Inr [(Some ''shot'', 0), (Some ''shot'', 600)],
           [ScrollTo 0, Delay 30, Delay 600, CaptureVisibleTab,
            ScrollTo 600, Delay 30, Delay 600, CaptureVisibleTab])
   \<and> exceedsBottom 1000 600 600
   \<and> popup_captureFullPage_captures (\<lambda>i. Inr ''shot'') 1000 600 =
     Some (Inr [(''shot'', 0), (''shot'', 400)],
           [ScrollTo 0, Delay 30, CaptureVisibleTab,
            ScrollTo 400, Delay 30, CaptureVisibleTab])"
  by (simp add: captureFullPage_captures_def popup_captureFullPage_captures_def numCaptures_def
        captureWithRetry_def captureWithRetry_from.simps backoff_def CAPTURE_DELAY_def
        upt_conv_Cons exceedsBottom_def)

section \<open>Properties of the gateway\<close>

lemma validate_missing:
  assumes "requiredCredential provider settings = Some []"
  shows "\<exists>msg. validateRequiredKey provider settings = Inl msg
               \<and> sublist ''API Key is required'' msg"
  using assms
  by (auto simp: requiredCredential_def validateRequiredKey_def sublist_code split: if_splits)

text \<open>
  C9 as stated fails for listing models: Google Vision requires a credential
  (\<open>validateRequiredKey\<close> rejects it without one), yet \<open>getModels\<close> for it without a
  key throws nothing and returns the empty list.
\<close>

theorem getModels_google_vision_does_not_throw:
  "requiredCredential (Some ''google-vision'') exampleSettings = Some []
   \<and> validateRequiredKey (Some ''google-vision'') exampleSettings
       = Inl ''Google Cloud Vision API Key is required''
   \<and> fst (getModels offline 0 ''google-vision'' [] emptyCache) = (Inr [], [])"
  by (simp add: requiredCredential_def validateRequiredKey_def exampleSettings_def
        getModels_def listing_def emptyCache_def Let_def)

text \<open>
  C9, amended. For \<open>describeImage\<close>, \<open>analyzeText\<close> and \<open>askFollowUp\<close> and every
  provider that requires a credential, an absent credential makes the operation throw
  that provider's missing-key error without calling any provider implementation, so
  without any network request. \<open>getModels\<close> without a key issues no network request
  for any of these providers; unless it finds a fresh cache entry under the key it
  throws the missing-key error for OpenAI, Anthropic, Gemini and Ollama Cloud, and for
  Google Vision it returns the empty list.
\<close>

theorem gateway_checks_credential_first:
  "(requiredCredential provider settings = Some [] \<longrightarrow>
      (\<exists>msg. validateRequiredKey provider settings = Inl msg
           \<and> sublist ''API Key is required'' msg
           \<and> (visionApiProvider settings = provider \<longrightarrow>
                  describeImage backend settings base64Image = (Inl msg, []))
           \<and> (textApiProvider settings = provider \<longrightarrow>
                  analyzeText backend settings txt = (Inl msg, [])
                  \<and> askFollowUp backend settings question = (Inl msg, []))))
   \<and> (p \<in> {''openai'', ''anthropic'', ''google-gemini'', ''ollama-cloud'', ''google-vision''} \<longrightarrow>
        snd (fst (getModels net now p [] c)) = [])
   \<and> (p \<in> {''openai'', ''anthropic'', ''google-gemini'', ''ollama-cloud''}
        \<and> \<not> cachedFresh c (p @ ''-no-key'') now \<longrightarrow>
        getModels net now p [] c = ((Inl ''API Key is required for this provider'', []), c))
   \<and> (\<not> cachedFresh c ''google-vision-no-key'' now \<longrightarrow>
        fst (getModels net now ''google-vision'' [] c) = (Inr [], []))"
proof (intro conjI impI)
  assume a: "requiredCredential provider settings = Some []"
  from validate_missing[OF a] obtain msg where
    m: "validateRequiredKey provider settings = Inl msg" "sublist ''API Key is required'' msg"
    by blast
  have "visionApiProvider settings = provider \<longrightarrow>
          describeImage backend settings base64Image = (Inl msg, [])"
    using m(1) by (auto simp: describeImage_def)
  moreover have "textApiProvider settings = provider \<longrightarrow>
          analyzeText backend settings txt = (Inl msg, [])
          \<and> askFollowUp backend settings question = (Inl msg, [])"
    using m(1) by (auto simp: analyzeText_def askFollowUp_def)
  ultimately show "\<exists>msg. validateRequiredKey provider settings = Inl msg
           \<and> sublist ''API Key is required'' msg
           \<and> (visionApiProvider settings = provider \<longrightarrow>
                  describeImage backend settings base64Image = (Inl msg, []))
           \<and> (textApiProvider settings = provider \<longrightarrow>
                  analyzeText backend settings txt = (Inl msg, [])
                  \<and> askFollowUp backend settings question = (Inl msg, []))"
    using m by blast
next
  assume "p \<in> {''openai'', ''anthropic'', ''google-gemini'', ''ollama-cloud'', ''google-vision''}"
  then show "snd (fst (getModels net now p [] c)) = []"
    by (auto simp: getModels_def Let_def listing_def)
next
  assume "p \<in> {''openai'', ''anthropic'', ''google-gemini'', ''ollama-cloud''}
        \<and> \<not> cachedFresh c (p @ ''-no-key'') now"
  then show "getModels net now p [] c = ((Inl ''API Key is required for this provider'', []), c)"
    by (auto simp: getModels_def Let_def cachedFresh_def)
next
  assume "\<not> cachedFresh c ''google-vision-no-key'' now"
  then show "fst (getModels net now ''google-vision'' [] c) = (Inr [], [])"
    by (auto simp: getModels_def Let_def cachedFresh_def listing_def)
qed

text \<open>
  With OpenAI chosen for vision and for text and no OpenAI key, the three operations
  throw \<^verbatim>\<open>OpenAI API Key is required\<close> and call nothing; listing the OpenAI models
  without a key throws and fetches nothing.
\<close>

theorem gateway_checks_credential_first_witness:
  "describeImage allSucceed
     (exampleSettings\<lparr>visionApiProvider := Some ''openai'', textApiProvider := Some ''openai''\<rparr>)
     ''AAAA'' = (Inl ''OpenAI API Key is required'', [])
   \<and> analyzeText allSucceed
     (exampleSettings\<lparr>visionApiProvider := Some ''openai'', textApiProvider := Some ''openai''\<rparr>)
     ''Invoice 42'' = (Inl ''OpenAI API Key is required'', [])
   \<and> askFollowUp allSucceed
     (exampleSettings\<lparr>visionApiProvider := Some ''openai'', textApiProvider := Some ''openai''\<rparr>)
     ''What is the total?'' = (Inl ''OpenAI API Key is required'', [])
   \<and> getModels offline 0 ''openai'' [] emptyCache
       = ((Inl ''API Key is required for this provider'', []), emptyCache)"
proof -
  let ?s = "exampleSettings\<lparr>visionApiProvider := Some ''openai'',
                             textApiProvider := Some ''openai''\<rparr>"
  have req: "requiredCredential (Some ''openai'') ?s = Some []"
    by (simp add: requiredCredential_def exampleSettings_def)
  have v: "validateRequiredKey (Some ''openai'') ?s = Inl ''OpenAI API Key is required''"
    by (simp add: validateRequiredKey_def exampleSettings_def)
  have prov: "visionApiProvider ?s = Some ''openai''" "textApiProvider ?s = Some ''openai''"
    by simp_all
  have miss: "''openai'' \<in> {''openai'', ''anthropic'', ''google-gemini'', ''ollama-cloud''}
        \<and> \<not> cachedFresh emptyCache (''openai'' @ ''-no-key'') 0"
    by (simp add: cachedFresh_def emptyCache_def)
  from gateway_checks_credential_first
         [of "Some ''openai''" ?s allSucceed "''AAAA''" "''Invoice 42''"
             "''What is the total?''" "''openai''" offline 0 emptyCache]
  show ?thesis
    using req v prov miss by auto
qed

section \<open>Properties of the orchestrator\<close>

lemmas run_defs =
  processQueuedRequest_def processQueuedRequest_try_def captureAndProcess_def
  processCapturedImage_def processCapturedImage_try_def analyzeScreenshot_def
  describeImage_def analyzeText_def validateRequiredKey_def call_def
  dequeue_def enqueue_def clear_def isRestrictedUrl_def restrictedPatterns_def
  writeState_def emit_def showFloatingProgress_def updateFloatingProgress_def
  hideFloatingProgress_def secondField_def notSet_def isCancelled_def getState_def
  cancel_def currentOrEmpty_def updateState_def spread_def Let_def
  formatResult_def parseMarkdown_def sanitizeSensitiveData_def ssnAt_def isDigit_def
  isWordChar_def present_def

lemmas example_defs =
  exampleEnv_def exampleSettings_def allSucceed_def textFails_def visionFails_def
  readsSSN_def startWorld_def emptyStore_def visibleRequest_def restrictedRequest_def

lemma currentOrEmpty_frame [simp]:
  "currentOrEmpty (s\<lparr>captureRequest := r\<rparr>) = currentOrEmpty s"
  "currentOrEmpty (s\<lparr>areaSelection := a\<rparr>) = currentOrEmpty s"
  "currentOrEmpty (s\<lparr>activeCaptureTabId := t\<rparr>) = currentOrEmpty s"
  by (simp_all add: currentOrEmpty_def)

lemma currentOrEmpty_writeState:
  "currentOrEmpty (wstore (writeState P w)) =
     (spread (currentOrEmpty (wstore w)) P)(''updatedAt'' \<mapsto> JNum (int (clock w)))"
  by (simp add: writeState_def currentOrEmpty_updateState)

lemma wstore_progress [simp]:
  "wstore (hideFloatingProgress w) = wstore w"
  "wstore (emit evs w) = wstore w"
  by (simp_all add: hideFloatingProgress_def emit_def)

lemma trace_progress:
  "trace (hideFloatingProgress w) = trace w @ [TabMessage ''hideProgress'']"
  "trace (emit evs w) = trace w @ evs"
  "trace (writeState P w) = trace w @ [StateWrite P]"
  "trace (w\<lparr>wstore := s\<rparr>) = trace w"
  by (simp_all add: hideFloatingProgress_def emit_def writeState_def)

lemma analyzingWorld_fields:
  "wstore (analyzingWorld w) = analyzingStore w"
  "clock (analyzingWorld w) = Suc (clock w)"
  "pollingActive (analyzingWorld w) = pollingActive w"
  "trace (analyzingWorld w) =
     trace w @ [StateWrite [''status'' \<mapsto> Some (JStr ''analyzing'')],
                ExecuteScript ''progress-indicator.js'', TabMessage ''showProgress'',
                TabMessage ''updateProgress'']"
  by (simp_all add: analyzingWorld_def updateFloatingProgress_def showFloatingProgress_def
        writeState_def emit_def analyzingStore_def)

subsection \<open>A restricted target\<close>

lemma restricted_try:
  assumes "captureRequest (wstore w) = Some request"
      and "request ''status'' = Some (JStr ''pending'')"
      and "isRestrictedUrl (request ''url'') = Inr True"
  shows "processQueuedRequest_try env w =
     (Inl (rejectionMessage env request),
      (if falsy (request ''tabId'') then emit [TabsQuery] else id)
        (w\<lparr>wstore := (wstore w)\<lparr>captureRequest :=
                            Some (request(''status'' \<mapsto> JStr ''processing''))\<rparr>,
           pollingActive := True\<rparr>))"
  using assms
  by (simp add: processQueuedRequest_try_def dequeue_def Let_def rejectionMessage_def
        split: sum.splits)

text \<open>
  C4. For every request that the worker dequeues and whose URL is restricted or
  missing, the run goes straight to status \<^verbatim>\<open>error\<close> with a message for the user
  (the restricted-page message whenever the request names its tab): its only write to
  the capture state is that error, it never writes \<^verbatim>\<open>capturing\<close>, and it makes no
  capture call.
\<close>

theorem restricted_request_goes_straight_to_error:
  assumes "\<not> pollingActive w"
      and "captureRequest (wstore w) = Some request"
      and "request ''status'' = Some (JStr ''pending'')"
      and "isRestrictedUrl (request ''url'') = Inr True"
  shows "trace (processQueuedRequest env w) =
             trace w @ (if falsy (request ''tabId'') then [TabsQuery] else [])
               @ [StateWrite [''status'' \<mapsto> Some (JStr ''error''),
                              ''error'' \<mapsto> Some (JStr (rejectionMessage env request))],
                  RequestCleared]
         \<and> list_all (\<lambda>ev. \<not> writesStatus ''capturing'' ev \<and> \<not> isCaptureOperation ev)
               (drop (length (trace w)) (trace (processQueuedRequest env w)))
         \<and> currentOrEmpty (wstore (processQueuedRequest env w)) ''status''
               = Some (JStr ''error'')
         \<and> currentOrEmpty (wstore (processQueuedRequest env w)) ''error''
               = Some (JStr (rejectionMessage env request))
         \<and> (\<not> falsy (request ''tabId'') \<longrightarrow>
               rejectionMessage env request
                 = ''Cannot capture screenshots on this page (Restricted URL).'')
         \<and> captureRequest (wstore (processQueuedRequest env w)) = None
         \<and> \<not> pollingActive (processQueuedRequest env w)"
proof -
  let ?w' = "processQueuedRequest env w"
  note body = restricted_try[OF assms(2,3,4), of env]
  have tr: "trace ?w' =
             trace w @ (if falsy (request ''tabId'') then [TabsQuery] else [])
               @ [StateWrite [''status'' \<mapsto> Some (JStr ''error''),
                              ''error'' \<mapsto> Some (JStr (rejectionMessage env request))],
                  RequestCleared]"
    using assms(1) body
    by (simp add: processQueuedRequest_def Let_def writeState_def emit_def)
  have st: "currentOrEmpty (wstore ?w') ''status'' = Some (JStr ''error'')"
           "currentOrEmpty (wstore ?w') ''error'' = Some (JStr (rejectionMessage env request))"
    using assms(1) body
    by (simp_all add: processQueuedRequest_def Let_def writeState_def emit_def clear_def
          currentOrEmpty_updateState spread_def)
  have rest: "captureRequest (wstore ?w') = None" "\<not> pollingActive ?w'"
    using assms(1)
    by (simp_all add: processQueuedRequest_def Let_def emit_def clear_def)
  have quiet: "list_all (\<lambda>ev. \<not> writesStatus ''capturing'' ev \<and> \<not> isCaptureOperation ev)
               (drop (length (trace w)) (trace ?w'))"
    unfolding tr by (simp add: writesStatus_def isCaptureOperation_def)
  have named: "\<not> falsy (request ''tabId'') \<longrightarrow>
               rejectionMessage env request
                 = ''Cannot capture screenshots on this page (Restricted URL).''"
    by (simp add: rejectionMessage_def)
  from tr st rest quiet named show ?thesis by blast
qed

text \<open>A request for \<^verbatim>\<open>chrome://settings\<close>, on an empty store.\<close>

theorem restricted_request_goes_straight_to_error_witness:
  "isRestrictedUrl (Some (JStr ''chrome://settings'')) = Inr True
   \<and> currentOrEmpty (wstore (processQueuedRequest (exampleEnv allSucceed id id)
        (startWorld (snd (enqueue 1000 ''k3j9x0a1b'' restrictedRequest emptyStore)))))
        ''status'' = Some (JStr ''error'')
   \<and> currentOrEmpty (wstore (processQueuedRequest (exampleEnv allSucceed id id)
        (startWorld (snd (enqueue 1000 ''k3j9x0a1b'' restrictedRequest emptyStore)))))
        ''error'' = Some (JStr ''Cannot capture screenshots on this page (Restricted URL).'')
   \<and> captureRequest (wstore (processQueuedRequest (exampleEnv allSucceed id id)
        (startWorld (snd (enqueue 1000 ''k3j9x0a1b'' restrictedRequest emptyStore))))) = None"
proof -
  define w where "w = startWorld (snd (enqueue 1000 ''k3j9x0a1b'' restrictedRequest emptyStore))"
  define r where
    "r = restrictedRequest ++ [''id'' \<mapsto> JStr (''capture_'' @ decimal 1000 @ ''_'' @ ''k3j9x0a1b''),
                                ''timestamp'' \<mapsto> JNum (int 1000),
                                ''status'' \<mapsto> JStr ''pending'']"
  define env where "env = exampleEnv allSucceed id id"
  have a: "\<not> pollingActive w" by (simp add: w_def startWorld_def)
  have b: "captureRequest (wstore w) = Some r"
    by (simp add: w_def r_def startWorld_def enqueue_def Let_def)
  have c: "r ''status'' = Some (JStr ''pending'')" by (simp add: r_def)
  have d: "isRestrictedUrl (Some (JStr ''chrome://settings'')) = Inr True"
    by (simp add: isRestrictedUrl_def restrictedPatterns_def)
  have d': "isRestrictedUrl (r ''url'') = Inr True"
    using d by (simp add: r_def restrictedRequest_def)
  have t: "\<not> falsy (r ''tabId'')"
    by (simp add: r_def restrictedRequest_def)
  note main = restricted_request_goes_straight_to_error [OF a b c d', of env]
  from main t have m: "rejectionMessage env r
      = ''Cannot capture screenshots on this page (Restricted URL).''" by blast
  from main have s: "currentOrEmpty (wstore (processQueuedRequest env w)) ''status''
      = Some (JStr ''error'')" by blast
  from main have e: "currentOrEmpty (wstore (processQueuedRequest env w)) ''error''
      = Some (JStr (rejectionMessage env r))" by blast
  from main have q: "captureRequest (wstore (processQueuedRequest env w)) = None" by blast
  note e' = e[unfolded m]
  show ?thesis
    using d s e' q unfolding w_def env_def by blast
qed

subsection \<open>The analysis phase\<close>

lemma analyzeScreenshot_vision_fails:
  assumes "\<not> notSet (visionApiProvider settings)" "\<not> notSet (textApiProvider settings)"
      and "describeImage (e_backend env) settings base64Image = (Inl e, calls)"
  shows "analyzeScreenshot env base64Image settings w =
           (Inl (''Vision analysis failed: '' @ e),
            emit ([TabMessage ''updateProgress'', GatewayCall ''describeImage'']
                  @ map NetworkCall calls) w)"
  using assms by (simp add: analyzeScreenshot_def)

lemma analyzeScreenshot_cancelled:
  assumes "\<not> notSet (visionApiProvider settings)" "\<not> notSet (textApiProvider settings)"
      and "describeImage (e_backend env) settings base64Image = (Inr d, calls)"
      and "isCancelled (getState (e_others1 env (wstore w)))"
  shows "analyzeScreenshot env base64Image settings w =
           (Inl ''Capture cancelled'',
            (emit ([TabMessage ''updateProgress'', GatewayCall ''describeImage'']
                  @ map NetworkCall calls) w)\<lparr>wstore := e_others1 env (wstore w)\<rparr>)"
  using assms by (simp add: analyzeScreenshot_def Let_def emit_def)

lemma analyzeScreenshot_text_fails:
  assumes "\<not> notSet (visionApiProvider settings)" "\<not> notSet (textApiProvider settings)"
      and "describeImage (e_backend env) settings base64Image = (Inr d, calls)"
      and "\<not> isCancelled (getState (e_others1 env (wstore w)))"
      and "analyzeText (e_backend env) settings (sanitizeSensitiveData d) = (Inl e, calls2)"
  shows "analyzeScreenshot env base64Image settings w =
           (Inr (formatResult (e_passes env) (sanitizeSensitiveData d)
                   (''Analysis unavailable: '' @ e)),
            emit ([TabMessage ''updateProgress'', GatewayCall ''analyzeText'']
                  @ map NetworkCall calls2)
              ((emit ([TabMessage ''updateProgress'', GatewayCall ''describeImage'']
                  @ map NetworkCall calls) w)\<lparr>wstore := e_others1 env (wstore w)\<rparr>))"
  using assms by (simp add: analyzeScreenshot_def Let_def emit_def)

lemma processCapturedImage_try_unfold:
  assumes "secondField dataUrl = Some base64Image" and "base64Image \<noteq> []"
  shows "processCapturedImage_try env dataUrl w =
     (case analyzeScreenshot env base64Image (e_settings env) (analyzingWorld w) of
        (Inl error, w3) \<Rightarrow> (Inl error, w3)
      | (Inr result, w3) \<Rightarrow>
          if isCancelled (getState (e_others2 env (wstore w3)))
          then (Inr (), hideFloatingProgress (w3\<lparr>wstore := e_others2 env (wstore w3)\<rparr>))
          else (Inr (),
                emit [TabMessage ''showResult'']
                  (hideFloatingProgress
                     (writeState [''status'' \<mapsto> Some (JStr ''complete''),
                                  ''result'' \<mapsto> Some (JStr result)]
                        (w3\<lparr>wstore := e_others2 env (wstore w3)\<rparr>)))))"
  using assms
  by (simp add: processCapturedImage_try_def analyzingWorld_def Let_def
        split: prod.splits sum.splits)

text \<open>
  A cancel that the worker reads at its first checkpoint, after the vision step and
  before the text analysis: the text analysis is not called, and the run ends by
  writing status \<^verbatim>\<open>error\<close> with the message \<^verbatim>\<open>Capture cancelled\<close>.
\<close>

lemma cancel_read_at_first_checkpoint:
  assumes "secondField dataUrl = Some base64Image" and "base64Image \<noteq> []"
      and "\<not> notSet (visionApiProvider (e_settings env))"
      and "\<not> notSet (textApiProvider (e_settings env))"
      and "describeImage (e_backend env) (e_settings env) base64Image = (Inr d, calls)"
      and "isCancelled (getState (e_others1 env (analyzingStore w)))"
  shows "currentOrEmpty (wstore (processCapturedImage env dataUrl w)) ''status''
           = Some (JStr ''error'')"
    and "currentOrEmpty (wstore (processCapturedImage env dataUrl w)) ''error''
           = Some (JStr ''Capture cancelled'')"
    and "list_all (\<lambda>ev. ev \<noteq> GatewayCall ''analyzeText'')
           (drop (length (trace w)) (trace (processCapturedImage env dataUrl w)))"
proof -
  have c: "isCancelled (getState (e_others1 env (wstore (analyzingWorld w))))"
    using assms(6) by (simp add: analyzingWorld_fields)
  have p: "processCapturedImage env dataUrl w =
      hideFloatingProgress
        (writeState [''status'' \<mapsto> Some (JStr ''error''),
                     ''error'' \<mapsto> Some (JStr ''Capture cancelled'')]
           ((emit ([TabMessage ''updateProgress'', GatewayCall ''describeImage'']
                   @ map NetworkCall calls) (analyzingWorld w))
              \<lparr>wstore := e_others1 env (analyzingStore w)\<rparr>))"
    by (simp add: processCapturedImage_def processCapturedImage_try_unfold[OF assms(1,2)]
          analyzeScreenshot_cancelled[OF assms(3,4,5) c] analyzingWorld_fields)
  show "currentOrEmpty (wstore (processCapturedImage env dataUrl w)) ''status''
           = Some (JStr ''error'')"
    by (simp add: p currentOrEmpty_writeState spread_def)
  show "currentOrEmpty (wstore (processCapturedImage env dataUrl w)) ''error''
           = Some (JStr ''Capture cancelled'')"
    by (simp add: p currentOrEmpty_writeState spread_def)
  show "list_all (\<lambda>ev. ev \<noteq> GatewayCall ''analyzeText'')
           (drop (length (trace w)) (trace (processCapturedImage env dataUrl w)))"
    by (simp add: p trace_progress analyzingWorld_fields list_all_iff)
qed

text \<open>
  A cancel that the worker reads at its second checkpoint, before \<^verbatim>\<open>complete\<close> is
  written: the run writes nothing more, and the status stays \<^verbatim>\<open>cancelled\<close>.
\<close>

lemma cancel_read_at_second_checkpoint:
  assumes "secondField dataUrl = Some base64Image" and "base64Image \<noteq> []"
      and "analyzeScreenshot env base64Image (e_settings env) (analyzingWorld w) = (Inr result, w3)"
      and "isCancelled (getState (e_others2 env (wstore w3)))"
  shows "wstore (processCapturedImage env dataUrl w) = e_others2 env (wstore w3)"
    and "currentOrEmpty (wstore (processCapturedImage env dataUrl w)) ''status''
           = Some (JStr ''cancelled'')"
    and "trace (processCapturedImage env dataUrl w) = trace w3 @ [TabMessage ''hideProgress'']"
proof -
  have p: "processCapturedImage env dataUrl w =
             hideFloatingProgress (w3\<lparr>wstore := e_others2 env (wstore w3)\<rparr>)"
    using assms(3,4)
    by (simp add: processCapturedImage_def processCapturedImage_try_unfold[OF assms(1,2)])
  show "wstore (processCapturedImage env dataUrl w) = e_others2 env (wstore w3)"
    by (simp add: p)
  show "currentOrEmpty (wstore (processCapturedImage env dataUrl w)) ''status''
           = Some (JStr ''cancelled'')"
    using assms(4)
    by (simp add: p isCancelled_def getState_def currentOrEmpty_def split: option.splits)
  show "trace (processCapturedImage env dataUrl w) = trace w3 @ [TabMessage ''hideProgress'']"
    by (simp add: p trace_progress)
qed

text \<open>
  C6 (a cancel read at a checkpoint ends the capture in status \<^verbatim>\<open>cancelled\<close>, never
  in \<^verbatim>\<open>error\<close>), evaluated for a cancel that lands while the vision step runs: the
  worker reads \<^verbatim>\<open>cancelled\<close> at the checkpoint before the text analysis, does not call
  the text analysis, and records status \<^verbatim>\<open>error\<close> with \<^verbatim>\<open>Capture cancelled\<close>.
\<close>

theorem cancel_before_text_analysis_recorded_as_error:
  "isCancelled (getState (cancel 77 (analyzingStore (startWorld emptyStore))))
   \<and> currentOrEmpty (wstore (processCapturedImage (exampleEnv allSucceed (cancel 77) id)
         ''data:image/png;base64,AAAA'' (startWorld emptyStore))) ''status''
       = Some (JStr ''error'')
   \<and> currentOrEmpty (wstore (processCapturedImage (exampleEnv allSucceed (cancel 77) id)
         ''data:image/png;base64,AAAA'' (startWorld emptyStore))) ''error''
       = Some (JStr ''Capture cancelled'')
   \<and> list_all (\<lambda>ev. ev \<noteq> GatewayCall ''analyzeText'')
       (trace (processCapturedImage (exampleEnv allSucceed (cancel 77) id)
                 ''data:image/png;base64,AAAA'' (startWorld emptyStore)))"
proof -
  let ?env = "exampleEnv allSucceed (cancel 77) id"
  let ?url = "''data:image/png;base64,AAAA''"
  let ?w = "startWorld emptyStore"
  have f: "secondField ?url = Some ''AAAA''" "''AAAA'' \<noteq> []"
    by (simp_all add: secondField_def)
  have prov: "\<not> notSet (visionApiProvider (e_settings ?env))"
             "\<not> notSet (textApiProvider (e_settings ?env))"
    by (simp_all add: exampleEnv_def exampleSettings_def notSet_def)
  have v: "describeImage (e_backend ?env) (e_settings ?env) ''AAAA''
             = (Inr ''Invoice 42'', [DescribeImageOllama])"
    by (simp add: describeImage_def validateRequiredKey_def call_def example_defs)
  have seen: "isCancelled (getState (cancel 77 (analyzingStore ?w)))"
    by (simp add: isCancelled_def getState_def cancel_def updateState_def spread_def Let_def)
  then have seen': "isCancelled (getState (e_others1 ?env (analyzingStore ?w)))"
    by (simp add: exampleEnv_def)
  note run = cancel_read_at_first_checkpoint [OF f prov v seen']
  have fresh: "drop (length (trace ?w)) (trace (processCapturedImage ?env ?url ?w))
                 = trace (processCapturedImage ?env ?url ?w)"
    by (simp add: startWorld_def)
  show ?thesis
    using seen run(1,2) run(3)[unfolded fresh] by blast
qed

text \<open>
  C5 as stated fails in two ways. A cancel that lands during the text analysis is read
  at the checkpoint before \<^verbatim>\<open>complete\<close> is written: the vision step has succeeded and
  the text analysis has thrown, and the capture ends in status \<^verbatim>\<open>cancelled\<close> with no
  result. And a vision text that has the shape of a social security number is redacted
  before it is rendered, so the result does not contain it (the example renderer wraps
  a text in one \<^verbatim>\<open>div\<close>, as \<^verbatim>\<open>parseMarkdown\<close> does for a text without Markdown).
\<close>

theorem text_failure_counterexample:
  "describeImage textFails exampleSettings ''AAAA'' = (Inr ''Invoice 42'', [DescribeImageOllama])
   \<and> analyzeText textFails exampleSettings ''Invoice 42''
       = (Inl ''model not loaded'', [AnalyzeTextOllama])
   \<and> currentOrEmpty (wstore (processCapturedImage (exampleEnv textFails id (cancel 77))
         ''data:image/png;base64,AAAA'' (startWorld emptyStore))) ''status''
       = Some (JStr ''cancelled'')
   \<and> \<not> present (currentOrEmpty (wstore (processCapturedImage
         (exampleEnv textFails id (cancel 77))
         ''data:image/png;base64,AAAA'' (startWorld emptyStore)))) ''result''
   \<and> describeImage readsSSN exampleSettings ''AAAA'' = (Inr ''123-45-6789'', [DescribeImageOllama])
   \<and> currentOrEmpty (wstore (processCapturedImage (exampleEnv readsSSN id id)
         ''data:image/png;base64,AAAA'' (startWorld emptyStore))) ''result''
       = Some (JStr ''<div>[REDACTED_SSN]</div><div>Analysis unavailable: model not loaded</div>'')
   \<and> \<not> sublist ''123-45-6789''
         ''<div>[REDACTED_SSN]</div><div>Analysis unavailable: model not loaded</div>''"
  by (simp add: run_defs example_defs sublist_code)

text \<open>
  C5, amended. In the analysis phase, when the vision step throws, the capture ends
  in status \<^verbatim>\<open>error\<close> and the text analysis is never called. When the vision step
  succeeds, the text analysis throws and no cancel is read at either checkpoint, the
  capture ends in status \<^verbatim>\<open>complete\<close>, and its result is the rendering of the vision
  text (after redaction) followed by the rendering of \<^verbatim>\<open>Analysis unavailable: \<close> and
  the message of the error thrown.
\<close>

theorem analysis_failures:
  assumes "secondField dataUrl = Some base64Image" and "base64Image \<noteq> []"
      and "\<not> notSet (visionApiProvider (e_settings env))"
      and "\<not> notSet (textApiProvider (e_settings env))"
  shows "(describeImage (e_backend env) (e_settings env) base64Image = (Inl e, calls) \<longrightarrow>
            currentOrEmpty (wstore (processCapturedImage env dataUrl w)) ''status''
              = Some (JStr ''error'')
          \<and> currentOrEmpty (wstore (processCapturedImage env dataUrl w)) ''error''
              = Some (JStr (''Vision analysis failed: '' @ e))
          \<and> list_all (\<lambda>ev. ev \<noteq> GatewayCall ''analyzeText'')
                (drop (length (trace w)) (trace (processCapturedImage env dataUrl w))))
       \<and> (describeImage (e_backend env) (e_settings env) base64Image = (Inr d, calls)
          \<and> analyzeText (e_backend env) (e_settings env) (sanitizeSensitiveData d)
              = (Inl e, calls2)
          \<and> \<not> isCancelled (getState (e_others1 env (analyzingStore w)))
          \<and> \<not> isCancelled (getState (e_others2 env (e_others1 env (analyzingStore w)))) \<longrightarrow>
            currentOrEmpty (wstore (processCapturedImage env dataUrl w)) ''status''
              = Some (JStr ''complete'')
          \<and> currentOrEmpty (wstore (processCapturedImage env dataUrl w)) ''result''
              = Some (JStr (formatResult (e_passes env) (sanitizeSensitiveData d)
                              (''Analysis unavailable: '' @ e))))"
proof (intro conjI impI)
  assume v: "describeImage (e_backend env) (e_settings env) base64Image = (Inl e, calls)"
  have p: "processCapturedImage env dataUrl w =
      hideFloatingProgress
        (writeState [''status'' \<mapsto> Some (JStr ''error''),
                     ''error'' \<mapsto> Some (JStr (''Vision analysis failed: '' @ e))]
           (emit ([TabMessage ''updateProgress'', GatewayCall ''describeImage'']
                  @ map NetworkCall calls) (analyzingWorld w)))"
    by (simp add: processCapturedImage_def processCapturedImage_try_unfold[OF assms(1,2)]
          analyzeScreenshot_vision_fails[OF assms(3,4) v])
  show "currentOrEmpty (wstore (processCapturedImage env dataUrl w)) ''status''
              = Some (JStr ''error'')"
    by (simp add: p currentOrEmpty_writeState spread_def)
  show "currentOrEmpty (wstore (processCapturedImage env dataUrl w)) ''error''
              = Some (JStr (''Vision analysis failed: '' @ e))"
    by (simp add: p currentOrEmpty_writeState spread_def)
  show "list_all (\<lambda>ev. ev \<noteq> GatewayCall ''analyzeText'')
                (drop (length (trace w)) (trace (processCapturedImage env dataUrl w)))"
    by (simp add: p trace_progress analyzingWorld_fields list_all_iff)
next
  assume h: "describeImage (e_backend env) (e_settings env) base64Image = (Inr d, calls)
          \<and> analyzeText (e_backend env) (e_settings env) (sanitizeSensitiveData d)
              = (Inl e, calls2)
          \<and> \<not> isCancelled (getState (e_others1 env (analyzingStore w)))
          \<and> \<not> isCancelled (getState (e_others2 env (e_others1 env (analyzingStore w))))"
  have c1: "\<not> isCancelled (getState (e_others1 env (wstore (analyzingWorld w))))"
    using h by (simp add: analyzingWorld_fields)
  note a = analyzeScreenshot_text_fails
             [OF assms(3,4) conjunct1[OF h] c1 conjunct1[OF conjunct2[OF h]]]
  have p: "processCapturedImage env dataUrl w =
      emit [TabMessage ''showResult'']
        (hideFloatingProgress
           (writeState [''status'' \<mapsto> Some (JStr ''complete''),
                        ''result'' \<mapsto> Some (JStr (formatResult (e_passes env)
                             (sanitizeSensitiveData d) (''Analysis unavailable: '' @ e)))]
              ((emit ([TabMessage ''updateProgress'', GatewayCall ''analyzeText'']
                      @ map NetworkCall calls2)
                 ((emit ([TabMessage ''updateProgress'', GatewayCall ''describeImage'']
                         @ map NetworkCall calls) (analyzingWorld w))
                    \<lparr>wstore := e_others1 env (analyzingStore w)\<rparr>))
                 \<lparr>wstore := e_others2 env (e_others1 env (analyzingStore w))\<rparr>)))"
    using h
    by (simp add: processCapturedImage_def processCapturedImage_try_unfold[OF assms(1,2)] a
          analyzingWorld_fields)
  show "currentOrEmpty (wstore (processCapturedImage env dataUrl w)) ''status''
              = Some (JStr ''complete'')"
    by (simp add: p currentOrEmpty_writeState spread_def)
  show "currentOrEmpty (wstore (processCapturedImage env dataUrl w)) ''result''
              = Some (JStr (formatResult (e_passes env) (sanitizeSensitiveData d)
                              (''Analysis unavailable: '' @ e)))"
    by (simp add: p currentOrEmpty_writeState spread_def)
qed

text \<open>
  A backend whose vision step fails, and one whose text analysis fails, with no cancel.
\<close>

theorem analysis_failures_witness:
  "currentOrEmpty (wstore (processCapturedImage (exampleEnv visionFails id id)
       ''data:image/png;base64,AAAA'' (startWorld emptyStore))) ''error''
     = Some (JStr ''Vision analysis failed: connection refused'')
   \<and> currentOrEmpty (wstore (processCapturedImage (exampleEnv textFails id id)
       ''data:image/png;base64,AAAA'' (startWorld emptyStore))) ''status''
     = Some (JStr ''complete'')
   \<and> currentOrEmpty (wstore (processCapturedImage (exampleEnv textFails id id)
       ''data:image/png;base64,AAAA'' (startWorld emptyStore))) ''result''
     = Some (JStr ''<div>Invoice 42</div><div>Analysis unavailable: model not loaded</div>'')"
proof -
  let ?url = "''data:image/png;base64,AAAA''"
  let ?w = "startWorld emptyStore"
  have f: "secondField ?url = Some ''AAAA''" "''AAAA'' \<noteq> []"
    by (simp_all add: secondField_def)
  have prov: "\<not> notSet (visionApiProvider (e_settings (exampleEnv b o1 o2)))"
             "\<not> notSet (textApiProvider (e_settings (exampleEnv b o1 o2)))" for b o1 o2
    by (simp_all add: exampleEnv_def exampleSettings_def notSet_def)
  have v: "describeImage (e_backend (exampleEnv visionFails id id))
             (e_settings (exampleEnv visionFails id id)) ''AAAA''
           = (Inl ''connection refused'', [DescribeImageOllama])"
    by (simp add: describeImage_def validateRequiredKey_def call_def example_defs)
  have t: "describeImage (e_backend (exampleEnv textFails id id))
             (e_settings (exampleEnv textFails id id)) ''AAAA''
           = (Inr ''Invoice 42'', [DescribeImageOllama])
         \<and> analyzeText (e_backend (exampleEnv textFails id id))
             (e_settings (exampleEnv textFails id id)) (sanitizeSensitiveData ''Invoice 42'')
           = (Inl ''model not loaded'', [AnalyzeTextOllama])
         \<and> \<not> isCancelled (getState (e_others1 (exampleEnv textFails id id) (analyzingStore ?w)))
         \<and> \<not> isCancelled (getState (e_others2 (exampleEnv textFails id id)
                 (e_others1 (exampleEnv textFails id id) (analyzingStore ?w))))"
    by (simp add: run_defs example_defs analyzingStore_def)
  have r: "formatResult (e_passes (exampleEnv textFails id id))
             (sanitizeSensitiveData ''Invoice 42'') (''Analysis unavailable: '' @ ''model not loaded'')
           = ''<div>Invoice 42</div><div>Analysis unavailable: model not loaded</div>''"
    by (simp add: run_defs example_defs)
  from analysis_failures
         [where dataUrl = ?url and ?base64Image = "''AAAA''"
            and env = "exampleEnv visionFails id id" and e = "''connection refused''"
            and calls = "[DescribeImageOllama]" and w = ?w,
          OF f prov] v
  have one: "currentOrEmpty (wstore (processCapturedImage (exampleEnv visionFails id id) ?url ?w))
               ''error'' = Some (JStr ''Vision analysis failed: connection refused'')"
    by simp
  from analysis_failures
         [where dataUrl = ?url and ?base64Image = "''AAAA''"
            and env = "exampleEnv textFails id id" and e = "''model not loaded''"
            and d = "''Invoice 42''" and calls = "[DescribeImageOllama]"
            and ?calls2.0 = "[AnalyzeTextOllama]" and w = ?w,
          OF f prov] t
  have two: "currentOrEmpty (wstore (processCapturedImage (exampleEnv textFails id id) ?url ?w))
               ''status'' = Some (JStr ''complete'')
           \<and> currentOrEmpty (wstore (processCapturedImage (exampleEnv textFails id id) ?url ?w))
               ''result'' = Some (JStr (formatResult (e_passes (exampleEnv textFails id id))
                  (sanitizeSensitiveData ''Invoice 42'')
                  (''Analysis unavailable: '' @ ''model not loaded'')))"
    by blast
  show ?thesis using one two unfolding r by simp
qed

subsection \<open>A result left in the store\<close>

text \<open>
  Where the invariant does hold: a run of the queue handler that starts from a state
  with no result in it, and during which no other context writes, ends in a state that
  satisfies the invariant.
\<close>

lemma inv_after_write_error:
  assumes "\<not> present (currentOrEmpty (wstore w)) ''result''"
  shows "resultErrorInvariant (currentOrEmpty (wstore (writeState
           [''status'' \<mapsto> Some (JStr ''error''), ''error'' \<mapsto> Some (JStr msg)] w)))"
  using assms
  by (simp add: currentOrEmpty_writeState spread_def resultErrorInvariant_def present_def)

lemma inv_after_write_complete:
  assumes "\<not> present (currentOrEmpty (wstore w)) ''error''"
  shows "resultErrorInvariant (currentOrEmpty (wstore (writeState
           [''status'' \<mapsto> Some (JStr ''complete''), ''result'' \<mapsto> Some (JStr r)] w)))"
  using assms
  by (simp add: currentOrEmpty_writeState spread_def resultErrorInvariant_def present_def)

lemma inv_after_write_status:
  assumes "\<not> present (currentOrEmpty (wstore w)) ''error''"
      and "\<not> present (currentOrEmpty (wstore w)) ''result''"
      and "P ''status'' = Some (Some (JStr st))" and "P ''error'' = None" and "P ''result'' = None"
      and "st \<noteq> ''complete''" and "st \<noteq> ''error''"
  shows "resultErrorInvariant (currentOrEmpty (wstore (writeState P w)))"
    and "\<not> present (currentOrEmpty (wstore (writeState P w))) ''error''"
    and "\<not> present (currentOrEmpty (wstore (writeState P w))) ''result''"
  using assms
  by (simp_all add: currentOrEmpty_writeState spread_def resultErrorInvariant_def present_def)

lemma analyzeScreenshot_store:
  assumes "e_others1 env = id"
  shows "wstore (snd (analyzeScreenshot env b settings w)) = wstore w"
  using assms
  by (simp add: analyzeScreenshot_def Let_def emit_def split: prod.splits sum.splits)

lemma processCapturedImage_keeps_invariant:
  assumes "\<not> present (currentOrEmpty (wstore w)) ''result''"
      and "\<not> present (currentOrEmpty (wstore w)) ''error''"
      and "e_others1 env = id" and "e_others2 env = id"
  shows "resultErrorInvariant (currentOrEmpty (wstore (processCapturedImage env dataUrl w)))"
proof -
  let ?a = "analyzingWorld w"
  have a: "\<not> present (currentOrEmpty (wstore ?a)) ''result''"
          "\<not> present (currentOrEmpty (wstore ?a)) ''error''"
          "currentOrEmpty (wstore ?a) ''status'' = Some (JStr ''analyzing'')"
    using assms(1,2)
    by (simp_all add: analyzingWorld_fields analyzingStore_def currentOrEmpty_updateState
          spread_def present_def)
  have ainv: "resultErrorInvariant (currentOrEmpty (wstore ?a))"
    using a by (simp add: resultErrorInvariant_def)
  show ?thesis
  proof (cases "secondField dataUrl")
    case None
    then show ?thesis
      using a(1)
      by (simp add: processCapturedImage_def processCapturedImage_try_def Let_def
            inv_after_write_error[unfolded analyzingWorld_def] analyzingWorld_def[symmetric])
  next
    case (Some b)
    show ?thesis
    proof (cases "b = []")
      case True
      then show ?thesis
        using a(1) Some
        by (simp add: processCapturedImage_def processCapturedImage_try_def Let_def
            analyzingWorld_def[symmetric] inv_after_write_error)
    next
      case False
      obtain r w3 where an: "analyzeScreenshot env b (e_settings env) ?a = (r, w3)"
        by (cases "analyzeScreenshot env b (e_settings env) ?a") auto
      have w3: "wstore w3 = wstore ?a"
        using analyzeScreenshot_store[OF assms(3), of b "e_settings env" ?a] an by simp
      have nc: "\<not> isCancelled (getState (wstore ?a))"
        using a(3) by (simp add: isCancelled_def getState_def currentOrEmpty_def split: option.splits)
      show ?thesis
      proof (cases r)
        case (Inl e)
        then show ?thesis
          using an a(1) w3
          by (simp add: processCapturedImage_def processCapturedImage_try_unfold[OF Some False]
                inv_after_write_error)
      next
        case (Inr res)
        then show ?thesis
          using an a(2) w3 nc assms(4)
          by (simp add: processCapturedImage_def processCapturedImage_try_unfold[OF Some False]
                inv_after_write_complete)
      qed
    qed
  qed
qed


lemma startAreaSelection_keeps_invariant:
  assumes "\<not> present (currentOrEmpty (wstore w)) ''result''"
      and "\<not> present (currentOrEmpty (wstore w)) ''error''"
  shows "resultErrorInvariant (currentOrEmpty (wstore (startAreaSelection env tabId w)))"
  using assms
  by (auto simp: startAreaSelection_def startAreaSelection_try_def Let_def emit_def
        writeState_def currentOrEmpty_updateState spread_def resultErrorInvariant_def
        present_def
      split: sum.splits option.splits if_splits prod.splits)

lemma captureAndProcess_keeps_invariant:
  assumes "\<not> present (currentOrEmpty (wstore w)) ''result''"
      and "\<not> present (currentOrEmpty (wstore w)) ''error''"
      and "e_others1 env = id" and "e_others2 env = id"
  shows "captureAndProcess env ev outcome w = (Inr u, w')
           \<Longrightarrow> resultErrorInvariant (currentOrEmpty (wstore w'))"
    and "captureAndProcess env ev outcome w = (Inl e, w')
           \<Longrightarrow> \<not> present (currentOrEmpty (wstore w')) ''result''"
  using assms processCapturedImage_keeps_invariant[of "emit [TabsGet, ev] w" env]
  by (auto simp: captureAndProcess_def split: sum.splits)


lemma capturing_written:
  fixes w :: world
  defines "P \<equiv> \<lambda>mode tabId. [''status'' \<mapsto> Some (JStr ''capturing''), ''mode'' \<mapsto> mode,
                 ''tabId'' \<mapsto> tabId, ''error'' \<mapsto> Some JNull, ''result'' \<mapsto> Some JNull]"
  shows "\<not> present (currentOrEmpty (wstore (writeState (P mode tabId) w))) ''result''"
    and "\<not> present (currentOrEmpty (wstore (writeState (P mode tabId) w))) ''error''"
    and "resultErrorInvariant (currentOrEmpty (wstore (writeState (P mode tabId) w)))"
  by (simp_all add: P_def currentOrEmpty_writeState spread_def present_def
        resultErrorInvariant_def)

lemma processQueuedRequest_try_keeps_invariant:
  assumes "resultErrorInvariant (currentOrEmpty (wstore w))"
      and "\<not> present (currentOrEmpty (wstore w)) ''result''"
      and "e_others1 env = id" and "e_others2 env = id"
      and "processQueuedRequest_try env w = (r, w')"
  shows "(case r of
            Inr _ \<Rightarrow> resultErrorInvariant (currentOrEmpty (wstore w'))
          | Inl e \<Rightarrow> \<not> present (currentOrEmpty (wstore w')) ''result'')"
proof (cases "dequeue (wstore w)")
  case (Pair q s1)
  have s1: "currentOrEmpty s1 = currentOrEmpty (wstore w)"
    using Pair by (auto simp: dequeue_def Let_def split: option.splits if_splits)
  show ?thesis
  proof (cases q)
    case None
    then show ?thesis
      using Pair assms(1,5) s1 by (auto simp: processQueuedRequest_try_def)
  next
    case (Some request)
    define w2 where "w2 = (if falsy (request ''tabId'')
                            then emit [TabsQuery] (w\<lparr>wstore := s1, pollingActive := True\<rparr>)
                            else w\<lparr>wstore := s1, pollingActive := True\<rparr>)"
    have w2: "currentOrEmpty (wstore w2) = currentOrEmpty (wstore w)"
      using s1 by (simp add: w2_def)
    define w3 where "w3 = (\<lambda>tabId. writeState [''status'' \<mapsto> Some (JStr ''capturing''),
                                          ''mode'' \<mapsto> request ''mode'',
                                          ''tabId'' \<mapsto> tabId,
                                          ''error'' \<mapsto> Some JNull,
                                          ''result'' \<mapsto> Some JNull] w2)"
    note cw = capturing_written[of "request ''mode''" _ w2]
    have body: "processQueuedRequest_try env w =
       (case (if falsy (request ''tabId'') then e_tabsQuery env
                   else Inr (request ''tabId'')) of
               Inl e \<Rightarrow> (Inl e, w2)
             | Inr tabId \<Rightarrow>
             if falsy tabId then (Inl ''Target tab could not be identified.'', w2)
             else
               case isRestrictedUrl (request ''url'') of
                 Inl e \<Rightarrow> (Inl e, w2)
               | Inr restricted \<Rightarrow>
                   if restricted
                   then (Inl ''Cannot capture screenshots on this page (Restricted URL).'', w2)
                   else
                     if request ''mode'' = Some (JStr ''visible'')
                          then captureAndProcess env CaptureVisibleTab (e_captureVisibleTab env) (w3 tabId)
                        else if request ''mode'' = Some (JStr ''full'')
                          then captureAndProcess env CaptureFullPage (e_captureFullPage env) (w3 tabId)
                        else if request ''mode'' = Some (JStr ''area'')
                          then (Inr (), startAreaSelection env tabId (w3 tabId))
                        else (Inr (), w3 tabId))"
      using Pair Some
      by (auto simp add: processQueuedRequest_try_def Let_def w2_def w3_def split: sum.splits)
    have early: "\<not> present (currentOrEmpty (wstore w2)) ''result''"
      using assms(2) w2 by simp
    show ?thesis
      using assms(5) early cw
            captureAndProcess_keeps_invariant[OF cw(1,2) assms(3,4)]
            startAreaSelection_keeps_invariant[OF cw(1,2)]
      unfolding body w3_def
      by (auto split: sum.splits if_splits)
  qed
qed

lemma clean_run_keeps_invariant:
  assumes "resultErrorInvariant (currentOrEmpty (wstore w))"
      and "\<not> present (currentOrEmpty (wstore w)) ''result''"
      and "e_others1 env = id" and "e_others2 env = id"
  shows "resultErrorInvariant (currentOrEmpty (wstore (processQueuedRequest env w)))"
proof (cases "pollingActive w")
  case True
  then show ?thesis using assms(1) by (simp add: processQueuedRequest_def)
next
  case False
  obtain r w' where b: "processQueuedRequest_try env w = (r, w')"
    by (cases "processQueuedRequest_try env w") auto
  note k = processQueuedRequest_try_keeps_invariant[OF assms b]
  show ?thesis
    using False b k
    by (cases r)
       (simp_all add: processQueuedRequest_def Let_def clear_def inv_after_write_error)
qed


text \<open>
  C3 (in every reachable state, \<^verbatim>\<open>result\<close> and \<^verbatim>\<open>error\<close> exclude each other),
  evaluated on the empty store: a capture of the visible area completes and leaves its
  result (the invariant holds); nothing resets the store; a request for
  \<^verbatim>\<open>chrome://settings\<close> is then rejected before \<^verbatim>\<open>capturing\<close> is written, and its
  error is merged over the state: status \<^verbatim>\<open>error\<close> with both \<^verbatim>\<open>result\<close> and
  \<^verbatim>\<open>error\<close> present.
\<close>

theorem stale_result_survives_rejected_request:
  "reachable afterRestrictedRequest
   \<and> currentOrEmpty (wstore afterFirstCapture) ''status'' = Some (JStr ''complete'')
   \<and> resultErrorInvariant (currentOrEmpty (wstore afterFirstCapture))
   \<and> currentOrEmpty (wstore afterRestrictedRequest) ''status'' = Some (JStr ''error'')
   \<and> present (currentOrEmpty (wstore afterRestrictedRequest)) ''result''
   \<and> present (currentOrEmpty (wstore afterRestrictedRequest)) ''error''
   \<and> \<not> resultErrorInvariant (currentOrEmpty (wstore afterRestrictedRequest))"
proof -
  have "reachable afterFirstCapture"
    unfolding afterFirstCapture_def
    using reachable.processed[OF reachable.enqueued[OF reachable.start]]
    by (simp add: startWorld_def)
  then have r: "reachable afterRestrictedRequest"
    unfolding afterRestrictedRequest_def
    by (intro reachable.processed reachable.enqueued)
  have "currentOrEmpty (wstore afterFirstCapture) ''status'' = Some (JStr ''complete'')
   \<and> resultErrorInvariant (currentOrEmpty (wstore afterFirstCapture))
   \<and> currentOrEmpty (wstore afterRestrictedRequest) ''status'' = Some (JStr ''error'')
   \<and> present (currentOrEmpty (wstore afterRestrictedRequest)) ''result''
   \<and> present (currentOrEmpty (wstore afterRestrictedRequest)) ''error''
   \<and> \<not> resultErrorInvariant (currentOrEmpty (wstore afterRestrictedRequest))"
    by (simp add: afterRestrictedRequest_def afterFirstCapture_def resultErrorInvariant_def
          run_defs example_defs)
  with r show ?thesis by blast
qed

end
